theory Spec2Isabelle
  imports Main "HOL-Library.Word" "HOL-Library.Char_ord" "HOL-Library.List_Lexorder"
    "HOL-Library.Multiset"
begin

unbundle bit_operations_syntax

section \<open>Data model\<close>

text \<open>
  The server is the revision of \<^verbatim>\<open>main.go\<close> that uses \<^verbatim>\<open>StatusWriter\<close> and
  \<^verbatim>\<open>OpenLogFile\<close> of \<^verbatim>\<open>logutil.go\<close> and \<^verbatim>\<open>RenderDirList\<close>
  (\<^verbatim>\<open>src/unnamed/part_003\<close>, with \<^verbatim>\<open>src/unnamed/part_000\<close> for the renderer).
  \<^verbatim>\<open>src/main.go\<close> holds an earlier revision of the same functions, with its own
  \<^verbatim>\<open>statusWriter\<close>, without directory listing and without the CGI variables.
  Strings are Go strings: sequences of bytes.
\<close>

record HandlerConfig =
  Command :: string
  Args :: "string list"

record ErrorPages =
  NotFound :: string
  Internal :: string

record Config =
  HomeDir :: string
  Port :: string
  ErrorPages :: ErrorPages
  DefaultIndexes :: "string list"
  Handlers :: "string \<rightharpoonup> HandlerConfig"
  AccessLog :: string
  ErrorLog :: string
  HandlerLog :: string

text \<open>
  The fields of \<^verbatim>\<open>*http.Request\<close> the handler reads. \<open>Header\<close> is Go's
  \<^verbatim>\<open>map[string][]string\<close> as an association list in the order in which a
  \<^verbatim>\<open>range\<close> visits it; \<open>URL_RequestURI\<close> is the result of \<^verbatim>\<open>r.URL.RequestURI()\<close>.
\<close>

record Request =
  Method :: string
  URL_Path :: string
  URL_RawQuery :: string
  URL_RequestURI :: string
  RequestURI :: string
  Proto :: string
  Host :: string
  RemoteAddr :: string
  Header :: "(string \<times> string list) list"
  Body :: string

text \<open>\<^verbatim>\<open>os.FileInfo\<close>: the directory flag, the mode bits, size and modification time.\<close>

record FileInfo =
  IsDir :: bool
  Mode :: "32 word"
  Size :: int
  ModTime :: string

text \<open>\<^verbatim>\<open>os.DirEntry\<close>: \<open>de_Info\<close> is \<open>None\<close> when \<^verbatim>\<open>Info()\<close> returns an error
  (and a nil \<^verbatim>\<open>FileInfo\<close>).\<close>

record DirEntry =
  de_Name :: string
  de_IsDir :: bool
  de_Info :: "FileInfo option"

text \<open>An external command as \<^verbatim>\<open>exec.Cmd\<close> holds it when it is run.\<close>

record Cmd =
  cmd_Path :: string
  cmd_Args :: "string list"
  cmd_Env :: "string list"
  cmd_Stdin :: string

datatype ProcOutcome = Exited int | FailedToStart | CopyFailed

text \<open>What a handler does to the \<^verbatim>\<open>http.ResponseWriter\<close> it is given.\<close>

datatype WriterOp = HeaderSet string string | DoWriteHeader int | DoWrite string

text \<open>The three bound values of the directory template.\<close>

record fileInfo =
  Name :: string
  isDir :: bool
  size :: int
  modTime :: string

record TemplateData =
  td_Path :: string
  td_Files :: "fileInfo list"
  td_Prefix :: string

text \<open>
  Everything outside the program: the filesystem, the process environment, the clock,
  the child process, and the library functions whose results the handler only passes on.
  \<open>exec_Run\<close> is \<^verbatim>\<open>cmd.CombinedOutput()\<close>: the captured standard output and standard
  error, and how the process ended. \<open>tmpl_File\<close> is \<^verbatim>\<open>html/dirlist.html\<close> read and
  parsed: \<open>None\<close> when the file is missing or does not parse, else what executing it
  writes for the bound values. \<open>esc_*\<close> are the contextual escapers of
  \<^verbatim>\<open>html/template\<close>.
\<close>

record World =
  os_Stat :: "string \<Rightarrow> FileInfo option"
  os_ReadFile :: "string \<Rightarrow> string option"
  os_ReadDir :: "string \<Rightarrow> DirEntry list option"
  os_Environ :: "string list"
  filepath_IsAbs :: "string \<Rightarrow> bool"
  filepath_Abs :: "string \<Rightarrow> string option"
  filepath_Join :: "string \<Rightarrow> string \<Rightarrow> string"
  strings_ToLower :: "string \<Rightarrow> string"
  strings_ToUpper :: "string \<Rightarrow> string"
  net_SplitHostPort :: "string \<Rightarrow> (string \<times> string) option"
  exec_Run :: "Cmd \<Rightarrow> string \<times> ProcOutcome"
  http_ServeFile :: "Request \<Rightarrow> string \<Rightarrow> WriterOp list"
  now_RFC3339 :: string
  now_CLF :: string
  tmpl_File :: "(TemplateData \<Rightarrow> string) option"
  URLQueryEscaper :: "string \<Rightarrow> string"
  esc_rcdata :: "string \<Rightarrow> string"
  esc_html :: "string \<Rightarrow> string"
  esc_href_start :: "string \<Rightarrow> string"
  esc_href_part :: "string \<Rightarrow> string"

section \<open>The response writer and its instrumentation (\<^verbatim>\<open>logutil.go\<close>)\<close>

text \<open>
  The connection's own \<^verbatim>\<open>http.ResponseWriter\<close>: the first \<^verbatim>\<open>WriteHeader\<close> fixes the
  status and the headers that are sent, later ones are ignored; a \<^verbatim>\<open>Write\<close> before any
  \<^verbatim>\<open>WriteHeader\<close> sends status 200 first. Every write is taken to be accepted in full.
\<close>

record ResponseWriter =
  hdr :: "string \<rightharpoonup> string list"
  wroteHeader :: bool
  sent_status :: int
  sent_hdr :: "string \<rightharpoonup> string list"
  sent_body :: string

definition rw_WriteHeader :: "int \<Rightarrow> ResponseWriter \<Rightarrow> ResponseWriter" where
  "rw_WriteHeader code w =
     (if wroteHeader w then w
      else w\<lparr>wroteHeader := True, sent_status := code, sent_hdr := hdr w\<rparr>)"

definition rw_Write :: "string \<Rightarrow> ResponseWriter \<Rightarrow> ResponseWriter \<times> int" where
  "rw_Write b w =
     (let w1 = (if wroteHeader w then w else rw_WriteHeader 200 w)
      in (w1\<lparr>sent_body := sent_body w1 @ b\<rparr>, int (length b)))"

definition hdr_Get :: "(string \<rightharpoonup> string list) \<Rightarrow> string \<Rightarrow> string" where
  "hdr_Get h k = (case h k of None \<Rightarrow> [] | Some [] \<Rightarrow> [] | Some (v # _) \<Rightarrow> v)"

definition rw_HeaderSet :: "string \<Rightarrow> string \<Rightarrow> ResponseWriter \<Rightarrow> ResponseWriter" where
  "rw_HeaderSet k v w = w\<lparr>hdr := (hdr w)(k \<mapsto> [v])\<rparr>"

text \<open>The status the client sees: 200 when the handler returned without writing.\<close>

definition final_status :: "ResponseWriter \<Rightarrow> int" where
  "final_status w = (if wroteHeader w then sent_status w else 200)"

definition fresh_response :: ResponseWriter where
  "fresh_response =
     \<lparr>hdr = Map.empty, wroteHeader = False, sent_status = 0, sent_hdr = Map.empty,
      sent_body = []\<rparr>"

record StatusWriter =
  ResponseWriter :: ResponseWriter
  Status :: int
  Bytes :: int

definition sw_WriteHeader :: "int \<Rightarrow> StatusWriter \<Rightarrow> StatusWriter" where
  "sw_WriteHeader code w =
     w\<lparr>Status := code, ResponseWriter := rw_WriteHeader code (ResponseWriter w)\<rparr>"

definition sw_Write :: "string \<Rightarrow> StatusWriter \<Rightarrow> StatusWriter" where
  "sw_Write b w =
     (let (rw, n) = rw_Write b (ResponseWriter w)
      in w\<lparr>ResponseWriter := rw, Bytes := Bytes w + n\<rparr>)"

text \<open>\<^verbatim>\<open>Header()\<close> is promoted from the embedded writer.\<close>

definition sw_HeaderSet :: "string \<Rightarrow> string \<Rightarrow> StatusWriter \<Rightarrow> StatusWriter" where
  "sw_HeaderSet k v w = w\<lparr>ResponseWriter := rw_HeaderSet k v (ResponseWriter w)\<rparr>"

fun sw_apply :: "StatusWriter \<Rightarrow> WriterOp \<Rightarrow> StatusWriter" where
  "sw_apply w (HeaderSet k v) = sw_HeaderSet k v w"
| "sw_apply w (DoWriteHeader code) = sw_WriteHeader code w"
| "sw_apply w (DoWrite b) = sw_Write b w"

text \<open>\<^verbatim>\<open>&StatusWriter{ResponseWriter: w, Status: s}\<close>\<close>

definition newStatusWriter :: "ResponseWriter \<Rightarrow> int \<Rightarrow> StatusWriter" where
  "newStatusWriter w s = \<lparr>ResponseWriter = w, Status = s, Bytes = 0\<rparr>"

section \<open>Logs and spawned processes\<close>

text \<open>
  The three log sinks, each the list of the lines given to its logger, in order (the
  date prefix the logger itself adds is left out), and the commands handed to
  \<^verbatim>\<open>CombinedOutput\<close> to be run, in order.
\<close>

datatype Sink = AccessSink | ErrorSink | HandlerSink

record Effects =
  accessLog :: "string list"
  errorLog :: "string list"
  handlerLog :: "string list"
  spawned :: "Cmd list"

definition no_effects :: Effects where
  "no_effects = \<lparr>accessLog = [], errorLog = [], handlerLog = [], spawned = []\<rparr>"

text \<open>One call of \<^verbatim>\<open>Printf\<close>/\<^verbatim>\<open>Println\<close> on the logger of a sink: one line.\<close>

fun logLine :: "Sink \<Rightarrow> string \<Rightarrow> Effects \<Rightarrow> Effects" where
  "logLine AccessSink l e = e\<lparr>accessLog := accessLog e @ [l]\<rparr>"
| "logLine ErrorSink l e = e\<lparr>errorLog := errorLog e @ [l]\<rparr>"
| "logLine HandlerSink l e = e\<lparr>handlerLog := handlerLog e @ [l]\<rparr>"

section \<open>String helpers of the Go library, byte for byte\<close>

text \<open>\<^verbatim>\<open>strings.Join(elems, sep)\<close>\<close>

fun join :: "string list \<Rightarrow> string \<Rightarrow> string" where
  "join [] sep = []"
| "join [x] sep = x"
| "join (x # y # ys) sep = x @ sep @ join (y # ys) sep"

text \<open>\<^verbatim>\<open>strings.ReplaceAll(s, old, new)\<close> for a non-empty \<open>old\<close>, which is what every call
  in the program passes.\<close>

fun replaceAll :: "string \<Rightarrow> string \<Rightarrow> string \<Rightarrow> string" where
  "replaceAll [] old new = []"
| "replaceAll (c # cs) old new =
     (if old \<noteq> [] \<and> take (length old) (c # cs) = old
      then new @ replaceAll (drop (length old) (c # cs)) old new
      else c # replaceAll cs old new)"

text \<open>\<^verbatim>\<open>strconv.Itoa\<close> and \<^verbatim>\<open>%d\<close>\<close>

fun digits :: "nat \<Rightarrow> string" where
  "digits n =
     (if n < 10 then [''0123456789'' ! n]
      else digits (n div 10) @ [''0123456789'' ! (n mod 10)])"

declare digits.simps [simp del]

definition itoa :: "int \<Rightarrow> string" where
  "itoa i = (if i < 0 then CHR ''-'' # digits (nat (- i)) else digits (nat i))"

text \<open>\<^verbatim>\<open>%v\<close> of a \<^verbatim>\<open>[]string\<close>\<close>

definition fmt_v :: "string list \<Rightarrow> string" where
  "fmt_v xs = ''['' @ join xs '' '' @ '']''"

text \<open>\<^verbatim>\<open>filepath.Ext\<close>: scan from the end up to the last separator, stop at the first dot.\<close>

fun ext_scan :: "string \<Rightarrow> string \<Rightarrow> string" where
  "ext_scan [] acc = []"
| "ext_scan (c # cs) acc =
     (if c = CHR ''/'' then []
      else if c = CHR ''.'' then c # acc
      else ext_scan cs (c # acc))"

definition Ext :: "string \<Rightarrow> string" where
  "Ext path = ext_scan (rev path) []"

text \<open>\<^verbatim>\<open>r.Header.Get(key)\<close> for a key in canonical form.\<close>

definition Header_Get :: "Request \<Rightarrow> string \<Rightarrow> string" where
  "Header_Get r k = hdr_Get (map_of (Header r)) k"

section \<open>The external handler (\<^verbatim>\<open>handleWithExternal\<close>)\<close>

text \<open>\<^verbatim>\<open>mode&0111 != 0\<close>: octal 111 is hexadecimal 49.\<close>

definition isExecutable :: "World \<Rightarrow> string \<Rightarrow> bool" where
  "isExecutable W path =
     (case os_Stat W path of None \<Rightarrow> False | Some info \<Rightarrow> Mode info AND 0x49 \<noteq> 0)"

definition resolveHandlerCommand :: "World \<Rightarrow> string \<Rightarrow> string" where
  "resolveHandlerCommand W cmdPath =
     (if filepath_IsAbs W cmdPath then cmdPath
      else case filepath_Abs W cmdPath of None \<Rightarrow> cmdPath | Some absPath \<Rightarrow> absPath)"

definition handlerLogMsg ::
  "World \<Rightarrow> string \<Rightarrow> string list \<Rightarrow> string \<Rightarrow> Request \<Rightarrow> int \<Rightarrow> string" where
  "handlerLogMsg W cmdPath args filePath r st =
     now_RFC3339 W @ '' | '' @ cmdPath @ '' | '' @ fmt_v args @ '' | '' @ filePath @ '' | ''
     @ Method r @ '' '' @ URL_RequestURI r @ '' | '' @ RemoteAddr r @ '' | status='' @ itoa st"

text \<open>\<^verbatim>\<open>if handlerLogger != nil { handlerLogger.Printf(...) }\<close>\<close>

definition logIfSet :: "Sink option \<Rightarrow> string \<Rightarrow> Effects \<Rightarrow> Effects" where
  "logIfSet logger l e = (case logger of None \<Rightarrow> e | Some s \<Rightarrow> logLine s l e)"

text \<open>The body of the loop over \<^verbatim>\<open>r.Header\<close>.\<close>

definition headerVar :: "World \<Rightarrow> string \<times> string list \<Rightarrow> string" where
  "headerVar W nv =
     (let key = ''HTTP_'' @ strings_ToUpper W (replaceAll (fst nv) ''-'' ''_'');
          val = join (snd nv) '',''
      in key @ ''='' @ val)"

definition cgiEnv :: "World \<Rightarrow> Request \<Rightarrow> string \<Rightarrow> string list" where
  "cgiEnv W r filePath =
     (let env = os_Environ W;
          env = env @ [''REQUEST_METHOD='' @ Method r];
          env = env @ [''QUERY_STRING='' @ URL_RawQuery r];
          env = env @ [''CONTENT_TYPE='' @ Header_Get r ''Content-Type''];
          env = env @ [''CONTENT_LENGTH='' @ Header_Get r ''Content-Length''];
          env = env @ [''SCRIPT_NAME='' @ URL_Path r];
          env = env @ [''PATH_INFO='' @ filePath];
          env = env @ [''REMOTE_ADDR='' @ RemoteAddr r];
          env = foldl (\<lambda>env nv. env @ [headerVar W nv]) env (Header r);
          env = env @ [''HTTP_HOST='' @ Host r];
          env = (let cookieHeader = Header_Get r ''Cookie''
                 in if cookieHeader \<noteq> [] then env @ [''HTTP_COOKIE='' @ cookieHeader] else env);
          env = env @ [''SERVER_PROTOCOL='' @ Proto r];
          env = (case net_SplitHostPort W (Host r) of
                   Some (host, port) \<Rightarrow> env @ [''SERVER_NAME='' @ host] @ [''SERVER_PORT='' @ port]
                 | None \<Rightarrow> env @ [''SERVER_NAME='' @ Host r]);
          env = env @ [''REQUEST_URI='' @ RequestURI r]
      in env)"

definition handleWithExternal ::
  "World \<Rightarrow> StatusWriter \<Rightarrow> Request \<Rightarrow> HandlerConfig \<Rightarrow> string \<Rightarrow> Sink option \<Rightarrow> Effects
     \<Rightarrow> StatusWriter \<times> Effects" where
  "handleWithExternal W w r handler filePath handlerLogger e =
     (let cmdPath = resolveHandlerCommand W (Command handler) in
      if \<not> isExecutable W cmdPath then
        (let w = sw_WriteHeader 500 w;
             w = sw_Write (''Handler executable not found or not executable: '' @ cmdPath) w;
             e = logIfSet handlerLogger
                   (handlerLogMsg W cmdPath (Args handler) filePath r 500) e
         in (w, e))
      else
        (let args = map (\<lambda>arg. replaceAll arg ''{filepath}'' filePath) (Args handler);
             cmd = \<lparr>cmd_Path = cmdPath, cmd_Args = args, cmd_Env = cgiEnv W r filePath,
                    cmd_Stdin = Body r\<rparr>;
             (output, outcome) = exec_Run W cmd;
             e = e\<lparr>spawned := spawned e @ [cmd]\<rparr>;
             (w, status) =
               (if outcome \<noteq> Exited 0 then
                  (let w = sw_WriteHeader 500 w;
                       w = sw_Write output w
                   in (w, 500))
                else
                  (let w = (if hdr_Get (hdr (ResponseWriter w)) ''Content-Type'' = []
                            then sw_HeaderSet ''Content-Type'' ''text/html; charset=utf-8'' w
                            else w);
                       w = sw_Write output w
                   in (w, 200)));
             e = logIfSet handlerLogger (handlerLogMsg W cmdPath args filePath r status) e
         in (w, e)))"

section \<open>Index resolution (\<^verbatim>\<open>tryServeIndexWithHandler\<close>)\<close>

text \<open>\<^verbatim>\<open>http.ServeFile(w, r, name)\<close>: the library's writes, made through the writer given.\<close>

definition ServeFile :: "World \<Rightarrow> StatusWriter \<Rightarrow> Request \<Rightarrow> string \<Rightarrow> StatusWriter" where
  "ServeFile W w r name = foldl sw_apply w (http_ServeFile W r name)"

text \<open>\<^verbatim>\<open>stat, err := os.Stat(p); err == nil && !stat.IsDir()\<close>\<close>

definition statIsFile :: "World \<Rightarrow> string \<Rightarrow> bool" where
  "statIsFile W p = (case os_Stat W p of None \<Rightarrow> False | Some stat \<Rightarrow> \<not> IsDir stat)"

fun tryServeIndexWithHandler ::
  "World \<Rightarrow> StatusWriter \<Rightarrow> Request \<Rightarrow> string \<Rightarrow> string list \<Rightarrow> (string \<rightharpoonup> HandlerConfig)
     \<Rightarrow> Effects \<Rightarrow> bool \<times> StatusWriter \<times> Effects" where
  "tryServeIndexWithHandler W w r dirPath [] handlers e = (False, w, e)"
| "tryServeIndexWithHandler W w r dirPath (idx # indexes) handlers e =
     (let indexPath = filepath_Join W dirPath idx in
      if statIsFile W indexPath then
        (let ext = strings_ToLower W (Ext indexPath) in
         case handlers ext of
           Some handler \<Rightarrow>
             (let (w, e) = handleWithExternal W w r handler indexPath None e
              in (True, w, e))
         | None \<Rightarrow> (True, ServeFile W w r indexPath, e))
      else tryServeIndexWithHandler W w r dirPath indexes handlers e)"

section \<open>The error page (\<^verbatim>\<open>serveErrorPage\<close>)\<close>

definition serveErrorPage ::
  "World \<Rightarrow> StatusWriter \<Rightarrow> int \<Rightarrow> string \<Rightarrow> string \<Rightarrow> StatusWriter" where
  "serveErrorPage W w code pagePath defaultMsg =
     (let w = sw_WriteHeader code w in
      if pagePath \<noteq> [] then
        (case os_ReadFile W pagePath of
           Some data \<Rightarrow> sw_Write data w
         | None \<Rightarrow> sw_Write defaultMsg w)
      else sw_Write defaultMsg w)"

section \<open>The directory listing (\<^verbatim>\<open>RenderDirList\<close>)\<close>

text \<open>A run-time panic of the Go program.\<close>

datatype fault = NilPointerDereference

text \<open>
  The loop over the entries: \<^verbatim>\<open>info, _ := f.Info()\<close> drops the error, and
  \<^verbatim>\<open>info.Size()\<close> on the nil \<^verbatim>\<open>FileInfo\<close> of a failed lookup panics.
  \<open>ModTime\<close> of a \<open>FileInfo\<close> stands for the time already formatted.
\<close>

fun collectInfos :: "DirEntry list \<Rightarrow> fileInfo list \<Rightarrow> fault + fileInfo list" where
  "collectInfos [] infos = Inr infos"
| "collectInfos (f # files) infos =
     (case de_Info f of
        None \<Rightarrow> Inl NilPointerDereference
      | Some info \<Rightarrow>
          collectInfos files
            (infos @ [\<lparr>Name = de_Name f, isDir = de_IsDir f, size = Size info,
                       modTime = ModTime info\<rparr>]))"

text \<open>The built-in template, with the escapers \<^verbatim>\<open>html/template\<close> puts at each action.\<close>

definition builtinEntry :: "World \<Rightarrow> string \<Rightarrow> fileInfo \<Rightarrow> string" where
  \<open>builtinEntry W prefix f =
     ''<li><a href="'' @ esc_href_start W prefix @ esc_href_part W (Name f) @ (if isDir f then ''/'' else [])
     @ ''">'' @ esc_html W (Name f) @ (if isDir f then ''/'' else []) @ ''</a></li>''\<close>

definition builtinTemplate :: "World \<Rightarrow> TemplateData \<Rightarrow> string" where
  \<open>builtinTemplate W d =
     ''<html><head><title>Index of '' @ esc_rcdata W (td_Path d)
     @ ''</title></head><body><h1>Index of '' @ esc_html W (td_Path d) @ ''</h1><ul>''
     @ concat (map (builtinEntry W (td_Prefix d)) (td_Files d))
     @ ''</ul></body></html>''\<close>

text \<open>
  \<^verbatim>\<open>sort.Slice\<close> with \<^verbatim>\<open>infos[i].Name < infos[j].Name\<close> is \<open>sort_key Name\<close>: Go compares
  strings byte by byte, as the order on \<open>string\<close> here does. \<^verbatim>\<open>t.Execute\<close> writes the
  template's output to \<open>w\<close>; its error is dropped.
\<close>

definition RenderDirList ::
  "World \<Rightarrow> ResponseWriter \<Rightarrow> Request \<Rightarrow> string \<Rightarrow> string \<Rightarrow> fault + ResponseWriter" where
  "RenderDirList W w r dirPath urlPath =
     (case os_ReadDir W dirPath of
        None \<Rightarrow>
          (let w = rw_WriteHeader 500 w
           in Inr (fst (rw_Write ''Failed to read directory.'' w)))
      | Some files \<Rightarrow>
          (case collectInfos files [] of
             Inl f \<Rightarrow> Inl f
           | Inr infos \<Rightarrow>
               (let infos = sort_key Name infos;
                    t = (case tmpl_File W of Some t \<Rightarrow> t | None \<Rightarrow> builtinTemplate W);
                    out = t \<lparr>td_Path = urlPath, td_Files = infos,
                             td_Prefix = URLQueryEscaper W urlPath\<rparr>
                in Inr (if out = [] then w else fst (rw_Write out w)))))"

section \<open>The request handler registered in \<^verbatim>\<open>main\<close>\<close>

text \<open>\<^verbatim>\<open>remoteHost[:strings.LastIndex(remoteHost, ":")]\<close> when there is a colon.\<close>

definition remoteHostOf :: "string \<Rightarrow> string" where
  "remoteHostOf a =
     (if CHR '':'' \<in> set a then rev (tl (dropWhile (\<lambda>c. c \<noteq> CHR '':'') (rev a))) else a)"

definition accessLogMsg :: "World \<Rightarrow> Request \<Rightarrow> StatusWriter \<Rightarrow> string" where
  \<open>accessLogMsg W r ww =
     (let remoteHost = remoteHostOf (RemoteAddr r);
          requestLine = Method r @ '' '' @ URL_RequestURI r @ '' '' @ Proto r;
          referer = (if Header_Get r ''Referer'' = [] then ''-'' else Header_Get r ''Referer'');
          userAgent =
            (if Header_Get r ''User-Agent'' = [] then ''-'' else Header_Get r ''User-Agent'')
      in remoteHost @ '' - - ['' @ now_CLF W @ ''] "'' @ requestLine @ ''" ''
         @ itoa (Status ww) @ '' '' @ itoa (Bytes ww) @ '' "'' @ referer @ ''" "''
         @ userAgent @ ''"'')\<close>

definition logAccess :: "World \<Rightarrow> Request \<Rightarrow> StatusWriter \<Rightarrow> Effects \<Rightarrow> Effects" where
  "logAccess W r ww e = logLine AccessSink (accessLogMsg W r ww) e"

definition errorLogMsg :: "Request \<Rightarrow> StatusWriter \<Rightarrow> string" where
  "errorLogMsg r ww =
     Method r @ '' '' @ URL_Path r @ '' '' @ itoa (Status ww) @ '' '' @ RemoteAddr r"

text \<open>
  The function given to \<^verbatim>\<open>http.HandleFunc("/", ...)\<close>. The three loggers come from
  \<^verbatim>\<open>log.New\<close> and are never nil, so their nil checks always pass.
\<close>

definition rootHandler ::
  "World \<Rightarrow> Config \<Rightarrow> ResponseWriter \<Rightarrow> Request \<Rightarrow> Effects \<Rightarrow> fault + ResponseWriter \<times> Effects"
  where
  "rootHandler W cfg w r e =
     (let filePath = HomeDir cfg @ URL_Path r in
      case os_Stat W filePath of
        Some stat \<Rightarrow>
          if IsDir stat then
            (let ww = newStatusWriter w 200;
                 (served, ww, e) =
                   tryServeIndexWithHandler W ww r filePath (DefaultIndexes cfg) (Handlers cfg) e
             in if served then Inr (ResponseWriter ww, logAccess W r ww e)
                else
                  (case RenderDirList W (ResponseWriter ww) r filePath (URL_Path r) of
                     Inl f \<Rightarrow> Inl f
                   | Inr w \<Rightarrow> Inr (w, e)))
          else
            (let ext = strings_ToLower W (Ext filePath) in
             case Handlers cfg ext of
               Some handler \<Rightarrow>
                 (let ww = newStatusWriter w 200;
                      (ww, e) = handleWithExternal W ww r handler filePath (Some HandlerSink) e;
                      e = (if Status ww \<ge> 400 then logLine ErrorSink (errorLogMsg r ww) e
                           else e);
                      e = logAccess W r ww e
                  in Inr (ResponseWriter ww, e))
             | None \<Rightarrow>
                 (let ww = newStatusWriter w 200;
                      ww = ServeFile W ww r filePath;
                      e = logAccess W r ww e
                  in Inr (ResponseWriter ww, e)))
      | None \<Rightarrow>
          (let ww = newStatusWriter w 404;
               ww = serveErrorPage W ww 404 (NotFound (ErrorPages cfg)) ''404 page not found'';
               e = logLine ErrorSink (errorLogMsg r ww) e;
               e = logAccess W r ww e
           in Inr (ResponseWriter ww, e)))"

section \<open>A small world to run the handler in\<close>

text \<open>
  A document root \<^verbatim>\<open>/srv/www\<close> holding a page, a script, a file mapped to a handler
  whose command is not executable, a directory \<^verbatim>\<open>app\<close> with an \<^verbatim>\<open>index.cgi\<close> and an
  \<^verbatim>\<open>index.bad\<close>, a
  directory \<^verbatim>\<open>bad\<close> with an \<^verbatim>\<open>index.bad\<close>, a directory \<^verbatim>\<open>sub\<close> without
  index file, and a directory \<^verbatim>\<open>gone\<close> one of whose entries can no longer be
  looked up. The library functions are given on the ASCII, already clean paths used here.
\<close>

definition regularFile :: "32 word \<Rightarrow> FileInfo" where
  "regularFile m = \<lparr>IsDir = False, Mode = m, Size = 5, ModTime = ''2024-01-01 00:00:00''\<rparr>"

definition directory :: FileInfo where
  "directory = \<lparr>IsDir = True, Mode = 0x1ED, Size = 4096, ModTime = ''2024-01-01 00:00:00''\<rparr>"

definition asciiUpper :: "string \<Rightarrow> string" where
  "asciiUpper =
     map (\<lambda>c. case map_of (zip ''abcdefghijklmnopqrstuvwxyz'' ''ABCDEFGHIJKLMNOPQRSTUVWXYZ'') c
               of None \<Rightarrow> c | Some u \<Rightarrow> u)"

definition asciiLower :: "string \<Rightarrow> string" where
  "asciiLower =
     map (\<lambda>c. case map_of (zip ''ABCDEFGHIJKLMNOPQRSTUVWXYZ'' ''abcdefghijklmnopqrstuvwxyz'') c
               of None \<Rightarrow> c | Some l \<Rightarrow> l)"

definition exFiles :: "(string \<times> FileInfo) list" where
  "exFiles =
     [(''/srv/www'', directory),
      (''/srv/www/a.html'', regularFile 0x1A4),
      (''/srv/www/s.cgi'', regularFile 0x1A4),
      (''/srv/www/x.bad'', regularFile 0x1A4),
      (''/srv/www/app'', directory),
      (''/srv/www/app/index.cgi'', regularFile 0x1A4),
      (''/srv/www/app/index.bad'', regularFile 0x1A4),
      (''/srv/www/bad'', directory),
      (''/srv/www/bad/index.bad'', regularFile 0x1A4),
      (''/srv/www/sub'', directory),
      (''/srv/www/sub/b.txt'', regularFile 0x1A4),
      (''/srv/www/sub/a'', directory),
      (''/srv/www/sub/Z.md'', regularFile 0x1A4),
      (''/srv/www/gone'', directory),
      (''/usr/bin/run'', regularFile 0x1ED),
      (''/opt/broken'', regularFile 0x1A4)]"

definition exDirs :: "(string \<times> DirEntry list) list" where
  "exDirs =
     [(''/srv/www/sub'',
        [\<lparr>de_Name = ''Z.md'', de_IsDir = False, de_Info = Some (regularFile 0x1A4)\<rparr>,
         \<lparr>de_Name = ''a'', de_IsDir = True, de_Info = Some directory\<rparr>,
         \<lparr>de_Name = ''b.txt'', de_IsDir = False, de_Info = Some (regularFile 0x1A4)\<rparr>]),
      (''/srv/www/gone'',
        [\<lparr>de_Name = ''tmp'', de_IsDir = False, de_Info = None\<rparr>])]"

definition exWorld :: World where
  "exWorld =
     \<lparr>os_Stat = map_of exFiles,
      os_ReadFile = (\<lambda>p. None),
      os_ReadDir = map_of exDirs,
      os_Environ = [''PATH=/usr/bin''],
      filepath_IsAbs = (\<lambda>p. take 1 p = ''/''),
      filepath_Abs = (\<lambda>p. Some (''/srv/'' @ p)),
      filepath_Join = (\<lambda>d f. d @ ''/'' @ f),
      strings_ToLower = asciiLower,
      strings_ToUpper = asciiUpper,
      net_SplitHostPort =
        (\<lambda>h. if h = ''example.org:8080'' then Some (''example.org'', ''8080'') else None),
      exec_Run =
        (\<lambda>c. if cmd_Path c = ''/usr/bin/run''
              then (if cmd_Args c = [''-f'', ''/srv/www/s.cgi''] then (''oops'', Exited 1)
                    else (''hello'', Exited 0))
              else ([], FailedToStart)),
      http_ServeFile =
        (\<lambda>r p. if p = ''/srv/www/a.html''
                then [HeaderSet ''Content-Type'' ''text/html; charset=utf-8'', DoWriteHeader 200,
                      DoWrite ''<p>a</p>'']
                else [DoWriteHeader 404, DoWrite ''404 page not found'']),
      now_RFC3339 = ''2024-05-06T07:08:09Z'',
      now_CLF = ''06/May/2024:07:08:09 +0000'',
      tmpl_File = None,
      URLQueryEscaper = (\<lambda>s. concat (map (\<lambda>c. if c = CHR ''/'' then ''%2F'' else [c]) s)),
      esc_rcdata = (\<lambda>s. s),
      esc_html = (\<lambda>s. s),
      esc_href_start = (\<lambda>s. s),
      esc_href_part = (\<lambda>s. s)\<rparr>"

definition exHandlers :: "string \<rightharpoonup> HandlerConfig" where
  "exHandlers =
     map_of [(''.cgi'', \<lparr>Command = ''/usr/bin/run'', Args = [''-f'', ''{filepath}'']\<rparr>),
             (''.bad'', \<lparr>Command = ''/opt/broken'', Args = [''{filepath}'']\<rparr>)]"

definition exConfig :: Config where
  "exConfig =
     \<lparr>HomeDir = ''/srv/www'', Port = ''8080'',
      ErrorPages = \<lparr>NotFound = ''/srv/www/404.html'', Internal = ''/srv/www/500.html''\<rparr>,
      DefaultIndexes = [''index.html'', ''index.cgi'', ''index.bad''],
      Handlers = exHandlers,
      AccessLog = [], ErrorLog = [], HandlerLog = []\<rparr>"

text \<open>\<^verbatim>\<open>GET path\<close> from \<^verbatim>\<open>10.0.0.7:5555\<close>, with the headers given.\<close>

definition exRequest :: "string \<Rightarrow> (string \<times> string list) list \<Rightarrow> Request" where
  "exRequest path hs =
     \<lparr>Method = ''GET'', URL_Path = path, URL_RawQuery = [], URL_RequestURI = path,
      RequestURI = path, Proto = ''HTTP/1.1'', Host = ''example.org:8080'',
      RemoteAddr = ''10.0.0.7:5555'', Header = hs, Body = []\<rparr>"

text \<open>
  A custom \<^verbatim>\<open>html/dirlist.html\<close> with the content
  \<^verbatim>\<open>{{range .Files}}<a href="{{.Name}}">{{.Name}}</a>{{end}}\<close>, on names that the
  escapers leave as they are.
\<close>

definition plainTemplate :: "TemplateData \<Rightarrow> string" where
  \<open>plainTemplate d =
     concat (map (\<lambda>f. ''<a href="'' @ Name f @ ''">'' @ Name f @ ''</a>'') (td_Files d))\<close>

text \<open>The entries of \<^verbatim>\<open>/srv/www/sub\<close> as the template receives them.\<close>

definition subInfos :: "fileInfo list" where
  "subInfos =
     [\<lparr>Name = ''Z.md'', isDir = False, size = 5, modTime = ''2024-01-01 00:00:00''\<rparr>,
      \<lparr>Name = ''a'', isDir = True, size = 4096, modTime = ''2024-01-01 00:00:00''\<rparr>,
      \<lparr>Name = ''b.txt'', isDir = False, size = 5, modTime = ''2024-01-01 00:00:00''\<rparr>]"

text \<open>The command as \<^verbatim>\<open>handleWithExternal\<close> assembles it before running it.\<close>

definition handlerCmd :: "World \<Rightarrow> Request \<Rightarrow> HandlerConfig \<Rightarrow> string \<Rightarrow> Cmd" where
  "handlerCmd W r handler filePath =
     \<lparr>cmd_Path = resolveHandlerCommand W (Command handler),
      cmd_Args = map (\<lambda>arg. replaceAll arg ''{filepath}'' filePath) (Args handler),
      cmd_Env = cgiEnv W r filePath, cmd_Stdin = Body r\<rparr>"

section \<open>Facts about the writers and the helpers\<close>

lemma foldl_snoc_map: "foldl (\<lambda>acc x. acc @ [f x]) acc xs = acc @ map f xs"
  by (induction xs arbitrary: acc) simp_all

lemma replaceAll_single:
  "replaceAll s [c] [d] = map (\<lambda>x. if x = c then d else x) s"
  by (induction s) simp_all

lemma itoa_500: "itoa 500 = ''500''"
  by (simp add: itoa_def digits.simps)

lemma itoa_200: "itoa 200 = ''200''"
  by (simp add: itoa_def digits.simps)

lemma sw_Write_simps:
  "ResponseWriter (sw_Write b w) = fst (rw_Write b (ResponseWriter w))"
  "Status (sw_Write b w) = Status w"
  "Bytes (sw_Write b w) = Bytes w + int (length b)"
  by (simp_all add: sw_Write_def rw_Write_def Let_def)

lemma sw_WriteHeader_simps:
  "ResponseWriter (sw_WriteHeader c w) = rw_WriteHeader c (ResponseWriter w)"
  "Status (sw_WriteHeader c w) = c"
  "Bytes (sw_WriteHeader c w) = Bytes w"
  by (simp_all add: sw_WriteHeader_def)

lemma sw_HeaderSet_simps:
  "ResponseWriter (sw_HeaderSet k v w) = rw_HeaderSet k v (ResponseWriter w)"
  "Status (sw_HeaderSet k v w) = Status w"
  "Bytes (sw_HeaderSet k v w) = Bytes w"
  by (simp_all add: sw_HeaderSet_def)

lemma rw_Write_body: "sent_body (fst (rw_Write b w)) = sent_body w @ b"
  by (simp add: rw_Write_def rw_WriteHeader_def Let_def)

lemma rw_Write_fresh:
  "\<not> wroteHeader w \<Longrightarrow> final_status (fst (rw_Write b w)) = 200"
  "\<not> wroteHeader w \<Longrightarrow> sent_hdr (fst (rw_Write b w)) = hdr w"
  by (simp_all add: rw_Write_def rw_WriteHeader_def Let_def final_status_def)

lemma rw_Write_after_header:
  "\<not> wroteHeader w \<Longrightarrow> final_status (fst (rw_Write b (rw_WriteHeader c w))) = c"
  by (simp add: rw_Write_def rw_WriteHeader_def Let_def final_status_def)

lemma rw_WriteHeader_body: "sent_body (rw_WriteHeader c w) = sent_body w"
  by (simp add: rw_WriteHeader_def)

lemma rw_HeaderSet_simps:
  "wroteHeader (rw_HeaderSet k v w) = wroteHeader w"
  "sent_body (rw_HeaderSet k v w) = sent_body w"
  "hdr (rw_HeaderSet k v w) = (hdr w)(k \<mapsto> [v])"
  by (simp_all add: rw_HeaderSet_def)

lemma logIfSet_spawned: "spawned (logIfSet l m e) = spawned e"
  by (cases l; simp add: logIfSet_def; cases "the l"; simp)

lemma logIfSet_handlerLog:
  "handlerLog (logIfSet (Some HandlerSink) m e) = handlerLog e @ [m]"
  "handlerLog (logIfSet None m e) = handlerLog e"
  by (simp_all add: logIfSet_def)

section \<open>The two paths of \<^verbatim>\<open>handleWithExternal\<close>\<close>

lemma handleWithExternal_fail:
  assumes "\<not> isExecutable W (resolveHandlerCommand W (Command handler))"
  shows "handleWithExternal W w r handler filePath logger e =
     (sw_Write (''Handler executable not found or not executable: ''
                 @ resolveHandlerCommand W (Command handler)) (sw_WriteHeader 500 w),
      logIfSet logger (handlerLogMsg W (resolveHandlerCommand W (Command handler))
         (Args handler) filePath r 500) e)"
  using assms by (simp add: handleWithExternal_def Let_def)

lemma handleWithExternal_run:
  assumes "isExecutable W (resolveHandlerCommand W (Command handler))"
      and "exec_Run W (handlerCmd W r handler filePath) = (output, outcome)"
  shows "handleWithExternal W w r handler filePath logger e =
     (if outcome \<noteq> Exited 0 then sw_Write output (sw_WriteHeader 500 w)
      else sw_Write output
             (if hdr_Get (hdr (ResponseWriter w)) ''Content-Type'' = []
              then sw_HeaderSet ''Content-Type'' ''text/html; charset=utf-8'' w else w),
      logIfSet logger
        (handlerLogMsg W (resolveHandlerCommand W (Command handler))
           (map (\<lambda>arg. replaceAll arg ''{filepath}'' filePath) (Args handler)) filePath r
           (if outcome \<noteq> Exited 0 then 500 else 200))
        (e\<lparr>spawned := spawned e @ [handlerCmd W r handler filePath]\<rparr>))"
  using assms by (simp add: handleWithExternal_def Let_def handlerCmd_def)

text \<open>
  C3. When the resolved command path does not exist, or exists with none of the three
  execute bits set, the invoker answers with status 500 (recorded by the wrapper and sent
  to the client), the body is the diagnostic message followed by the command path, and the
  list of spawned processes is unchanged.
\<close>

theorem C3_not_executable_500_no_spawn:
  assumes "case os_Stat W (resolveHandlerCommand W (Command handler)) of
             None \<Rightarrow> True | Some info \<Rightarrow> Mode info AND 0x49 = 0"
      and "\<not> wroteHeader (ResponseWriter w)"
      and "handleWithExternal W w r handler filePath logger e = (w', e')"
  shows "Status w' = 500 \<and> final_status (ResponseWriter w') = 500
         \<and> sent_body (ResponseWriter w') = sent_body (ResponseWriter w)
              @ ''Handler executable not found or not executable: ''
              @ resolveHandlerCommand W (Command handler)
         \<and> spawned e' = spawned e"
proof -
  from assms(1) have "\<not> isExecutable W (resolveHandlerCommand W (Command handler))"
    by (simp add: isExecutable_def split: option.splits)
  from handleWithExternal_fail [OF this] assms(3)
  have w': "w' = sw_Write (''Handler executable not found or not executable: ''
                 @ resolveHandlerCommand W (Command handler)) (sw_WriteHeader 500 w)"
    and e': "e' = logIfSet logger (handlerLogMsg W (resolveHandlerCommand W (Command handler))
         (Args handler) filePath r 500) e"
    by simp_all
  show ?thesis
    using assms(2)
    by (simp add: w' e' sw_Write_simps sw_WriteHeader_simps rw_Write_body rw_WriteHeader_body
        rw_Write_after_header logIfSet_spawned)
qed

theorem C3_witness:
  "(case os_Stat exWorld (resolveHandlerCommand exWorld
            (Command \<lparr>Command = ''/opt/broken'', Args = [''{filepath}'']\<rparr>)) of
      None \<Rightarrow> True | Some info \<Rightarrow> Mode info AND 0x49 = 0)
   \<and> \<not> wroteHeader (ResponseWriter (newStatusWriter fresh_response 200))
   \<and> Status (fst (handleWithExternal exWorld (newStatusWriter fresh_response 200)
        (exRequest ''/x.bad'' []) \<lparr>Command = ''/opt/broken'', Args = [''{filepath}'']\<rparr>
        ''/srv/www/x.bad'' (Some HandlerSink) no_effects)) = 500
   \<and> sent_body (ResponseWriter (fst (handleWithExternal exWorld
        (newStatusWriter fresh_response 200)
        (exRequest ''/x.bad'' []) \<lparr>Command = ''/opt/broken'', Args = [''{filepath}'']\<rparr>
        ''/srv/www/x.bad'' (Some HandlerSink) no_effects)))
       = ''Handler executable not found or not executable: /opt/broken''
   \<and> spawned (snd (handleWithExternal exWorld (newStatusWriter fresh_response 200)
        (exRequest ''/x.bad'' []) \<lparr>Command = ''/opt/broken'', Args = [''{filepath}'']\<rparr>
        ''/srv/www/x.bad'' (Some HandlerSink) no_effects)) = []"
proof -
  have h1: "case os_Stat exWorld (resolveHandlerCommand exWorld
               (Command \<lparr>Command = ''/opt/broken'', Args = [''{filepath}'']\<rparr>)) of
      None \<Rightarrow> True | Some info \<Rightarrow> Mode info AND 0x49 = 0"
    by (simp add: exWorld_def resolveHandlerCommand_def exFiles_def regularFile_def)
  have h2: "\<not> wroteHeader (ResponseWriter (newStatusWriter fresh_response 200))"
    by (simp add: newStatusWriter_def fresh_response_def)
  have h3: "resolveHandlerCommand exWorld ''/opt/broken'' = ''/opt/broken''"
    by (simp add: exWorld_def resolveHandlerCommand_def)
  show ?thesis
    using h1 h2 C3_not_executable_500_no_spawn [OF h1 h2 surjective_pairing,
        of "exRequest ''/x.bad'' []" "''/srv/www/x.bad''" "Some HandlerSink" no_effects]
    by (simp add: no_effects_def h3 newStatusWriter_def fresh_response_def)
qed

lemma exWorld_run_ok:
  "isExecutable exWorld (resolveHandlerCommand exWorld ''/usr/bin/run'')"
  by (simp add: isExecutable_def resolveHandlerCommand_def exWorld_def exFiles_def regularFile_def)

lemma handleWithExternal_spawned:
  "spawned (snd (handleWithExternal W w r handler filePath logger e)) =
     (if isExecutable W (resolveHandlerCommand W (Command handler))
      then spawned e @ [handlerCmd W r handler filePath] else spawned e)"
proof (cases "isExecutable W (resolveHandlerCommand W (Command handler))")
  case True
  obtain out oc where "exec_Run W (handlerCmd W r handler filePath) = (out, oc)"
    by (cases "exec_Run W (handlerCmd W r handler filePath)")
  from handleWithExternal_run [OF True this] True show ?thesis
    by (simp add: logIfSet_spawned)
next
  case False
  from handleWithExternal_fail [OF False] False show ?thesis
    by (simp add: logIfSet_spawned)
qed

lemma handleWithExternal_log:
  "snd (handleWithExternal W w r handler filePath logger e) =
     logIfSet logger
       (handlerLogMsg W (resolveHandlerCommand W (Command handler))
          (if isExecutable W (resolveHandlerCommand W (Command handler))
           then map (\<lambda>arg. replaceAll arg ''{filepath}'' filePath) (Args handler)
           else Args handler)
          filePath r
          (if isExecutable W (resolveHandlerCommand W (Command handler))
              \<and> snd (exec_Run W (handlerCmd W r handler filePath)) = Exited 0
           then 200 else 500))
       (if isExecutable W (resolveHandlerCommand W (Command handler))
        then e\<lparr>spawned := spawned e @ [handlerCmd W r handler filePath]\<rparr> else e)"
proof (cases "isExecutable W (resolveHandlerCommand W (Command handler))")
  case True
  obtain out oc where run: "exec_Run W (handlerCmd W r handler filePath) = (out, oc)"
    by (cases "exec_Run W (handlerCmd W r handler filePath)")
  from handleWithExternal_run [OF True run] True run show ?thesis
    by simp
next
  case False
  from handleWithExternal_fail [OF False] False show ?thesis
    by simp
qed

lemma cgiEnv_eq:
  "cgiEnv W r filePath =
     os_Environ W
     @ [''REQUEST_METHOD='' @ Method r,
        ''QUERY_STRING='' @ URL_RawQuery r,
        ''CONTENT_TYPE='' @ Header_Get r ''Content-Type'',
        ''CONTENT_LENGTH='' @ Header_Get r ''Content-Length'',
        ''SCRIPT_NAME='' @ URL_Path r,
        ''PATH_INFO='' @ filePath,
        ''REMOTE_ADDR='' @ RemoteAddr r]
     @ map (headerVar W) (Header r)
     @ [''HTTP_HOST='' @ Host r]
     @ (if Header_Get r ''Cookie'' \<noteq> [] then [''HTTP_COOKIE='' @ Header_Get r ''Cookie''] else [])
     @ [''SERVER_PROTOCOL='' @ Proto r]
     @ (case net_SplitHostPort W (Host r) of
          Some (host, port) \<Rightarrow> [''SERVER_NAME='' @ host, ''SERVER_PORT='' @ port]
        | None \<Rightarrow> [''SERVER_NAME='' @ Host r])
     @ [''REQUEST_URI='' @ RequestURI r]"
  by (simp add: cgiEnv_def Let_def foldl_snoc_map split: option.splits)

lemma headerVar_eq:
  "headerVar W =
     (\<lambda>(name, values).
        ''HTTP_'' @ strings_ToUpper W (map (\<lambda>c. if c = CHR ''-'' then CHR ''_'' else c) name)
        @ ''='' @ join values '','')"
  by (rule ext) (simp add: headerVar_def Let_def replaceAll_single split: prod.splits)

text \<open>
  C4. When the executable check passes, the body written is exactly the output captured from
  the child. When the child exits 0 the status is 200, and the Content-Type sent is
  \<^verbatim>\<open>text/html; charset=utf-8\<close> unless one was already set; when it exits non-zero, fails
  to start, or its streams could not be copied, the status is 500 and the body is still the
  captured output. The writer is the one the dispatcher makes: nothing written yet, status
  field 200.
\<close>

theorem C4_body_is_captured_output:
  assumes "isExecutable W (resolveHandlerCommand W (Command handler))"
      and "\<not> wroteHeader (ResponseWriter w)"
      and "Status w = 200"
      and "exec_Run W (handlerCmd W r handler filePath) = (output, outcome)"
      and "handleWithExternal W w r handler filePath logger e = (w', e')"
  shows "sent_body (ResponseWriter w') = sent_body (ResponseWriter w) @ output
         \<and> (if outcome = Exited 0
             then Status w' = 200 \<and> final_status (ResponseWriter w') = 200
                  \<and> hdr_Get (sent_hdr (ResponseWriter w')) ''Content-Type'' =
                      (if hdr_Get (hdr (ResponseWriter w)) ''Content-Type'' = []
                       then ''text/html; charset=utf-8''
                       else hdr_Get (hdr (ResponseWriter w)) ''Content-Type'')
             else Status w' = 500 \<and> final_status (ResponseWriter w') = 500)"
proof -
  note eq = handleWithExternal_run [OF assms(1) assms(4), of w logger e]
  show ?thesis
  proof (cases "outcome = Exited 0")
    case True
    with eq assms(5) have w': "w' = sw_Write output
             (if hdr_Get (hdr (ResponseWriter w)) ''Content-Type'' = []
              then sw_HeaderSet ''Content-Type'' ''text/html; charset=utf-8'' w else w)"
      by simp
    show ?thesis
      using True assms(2,3)
      by (simp add: w' sw_Write_simps sw_HeaderSet_simps rw_Write_body rw_Write_fresh
          rw_HeaderSet_simps hdr_Get_def)
  next
    case False
    with eq assms(5) have w': "w' = sw_Write output (sw_WriteHeader 500 w)"
      by simp
    show ?thesis
      using False assms(2)
      by (simp add: w' sw_Write_simps sw_WriteHeader_simps rw_Write_body rw_WriteHeader_body
          rw_Write_after_header)
  qed
qed

theorem C4_witness:
  "isExecutable exWorld (resolveHandlerCommand exWorld
       (Command \<lparr>Command = ''/usr/bin/run'', Args = [''-f'', ''{filepath}'']\<rparr>))
   \<and> \<not> wroteHeader (ResponseWriter (newStatusWriter fresh_response 200))
   \<and> Status (newStatusWriter fresh_response 200) = 200
   \<and> exec_Run exWorld (handlerCmd exWorld (exRequest ''/s.cgi'' [])
        \<lparr>Command = ''/usr/bin/run'', Args = [''-f'', ''{filepath}'']\<rparr> ''/srv/www/s.cgi'')
       = (''oops'', Exited 1)
   \<and> sent_body (ResponseWriter (fst (handleWithExternal exWorld
        (newStatusWriter fresh_response 200) (exRequest ''/s.cgi'' [])
        \<lparr>Command = ''/usr/bin/run'', Args = [''-f'', ''{filepath}'']\<rparr> ''/srv/www/s.cgi''
        (Some HandlerSink) no_effects))) = ''oops''
   \<and> final_status (ResponseWriter (fst (handleWithExternal exWorld
        (newStatusWriter fresh_response 200) (exRequest ''/s.cgi'' [])
        \<lparr>Command = ''/usr/bin/run'', Args = [''-f'', ''{filepath}'']\<rparr> ''/srv/www/s.cgi''
        (Some HandlerSink) no_effects))) = 500
   \<and> exec_Run exWorld (handlerCmd exWorld (exRequest ''/app'' [])
        \<lparr>Command = ''/usr/bin/run'', Args = [''-f'', ''{filepath}'']\<rparr>
        ''/srv/www/app/index.cgi'') = (''hello'', Exited 0)
   \<and> sent_body (ResponseWriter (fst (handleWithExternal exWorld
        (newStatusWriter fresh_response 200) (exRequest ''/app'' [])
        \<lparr>Command = ''/usr/bin/run'', Args = [''-f'', ''{filepath}'']\<rparr>
        ''/srv/www/app/index.cgi'' None no_effects))) = ''hello''
   \<and> final_status (ResponseWriter (fst (handleWithExternal exWorld
        (newStatusWriter fresh_response 200) (exRequest ''/app'' [])
        \<lparr>Command = ''/usr/bin/run'', Args = [''-f'', ''{filepath}'']\<rparr>
        ''/srv/www/app/index.cgi'' None no_effects))) = 200
   \<and> hdr_Get (sent_hdr (ResponseWriter (fst (handleWithExternal exWorld
        (newStatusWriter fresh_response 200) (exRequest ''/app'' [])
        \<lparr>Command = ''/usr/bin/run'', Args = [''-f'', ''{filepath}'']\<rparr>
        ''/srv/www/app/index.cgi'' None no_effects)))) ''Content-Type''
       = ''text/html; charset=utf-8''"
proof -
  let ?h = "\<lparr>Command = ''/usr/bin/run'', Args = [''-f'', ''{filepath}'']\<rparr>"
  have h1: "isExecutable exWorld (resolveHandlerCommand exWorld (Command ?h))"
    using exWorld_run_ok by simp
  have h2: "\<not> wroteHeader (ResponseWriter (newStatusWriter fresh_response 200))"
    by (simp add: newStatusWriter_def fresh_response_def)
  have h3: "Status (newStatusWriter fresh_response 200) = 200"
    by (simp add: newStatusWriter_def)
  have r1: "exec_Run exWorld (handlerCmd exWorld (exRequest ''/s.cgi'' []) ?h ''/srv/www/s.cgi'')
       = (''oops'', Exited 1)"
    by (simp add: handlerCmd_def exWorld_def resolveHandlerCommand_def)
  have r2: "exec_Run exWorld (handlerCmd exWorld (exRequest ''/app'' []) ?h
       ''/srv/www/app/index.cgi'') = (''hello'', Exited 0)"
    by (simp add: handlerCmd_def exWorld_def resolveHandlerCommand_def)
  have f: "sent_body (ResponseWriter (newStatusWriter fresh_response 200)) = []"
     "hdr_Get (hdr (ResponseWriter (newStatusWriter fresh_response 200))) ''Content-Type'' = []"
    by (simp_all add: newStatusWriter_def fresh_response_def hdr_Get_def)
  show ?thesis
    using h1 h2 h3 r1 r2
      C4_body_is_captured_output [OF h1 h2 h3 r1 surjective_pairing, of "Some HandlerSink" no_effects]
      C4_body_is_captured_output [OF h1 h2 h3 r2 surjective_pairing, of None no_effects]
    by (simp add: f)
qed

text \<open>
  C5, as stated, fails: a request for the directory \<^verbatim>\<open>/app\<close>, whose \<^verbatim>\<open>index.cgi\<close> is
  mapped to a handler, runs the handler (one process is spawned) and leaves the handler log
  empty, because \<^verbatim>\<open>tryServeIndexWithHandler\<close> passes a nil logger.
\<close>

theorem C5_counterexample_index_invocation_not_logged:
  \<open>map_sum id snd (rootHandler exWorld exConfig fresh_response (exRequest ''/app'' []) no_effects)
    = Inr \<lparr>accessLog = [''10.0.0.7 - - [06/May/2024:07:08:09 +0000] "GET /app HTTP/1.1" 200 5 "-" "-"''],
           errorLog = [], handlerLog = [],
           spawned = [\<lparr>cmd_Path = ''/usr/bin/run'',
                       cmd_Args = [''-f'', ''/srv/www/app/index.cgi''],
                       cmd_Env = [''PATH=/usr/bin'', ''REQUEST_METHOD=GET'', ''QUERY_STRING='',
                          ''CONTENT_TYPE='', ''CONTENT_LENGTH='', ''SCRIPT_NAME=/app'',
                          ''PATH_INFO=/srv/www/app/index.cgi'',
                          ''REMOTE_ADDR=10.0.0.7:5555'', ''HTTP_HOST=example.org:8080'',
                          ''SERVER_PROTOCOL=HTTP/1.1'', ''SERVER_NAME=example.org'',
                          ''SERVER_PORT=8080'', ''REQUEST_URI=/app''],
                       cmd_Stdin = []\<rparr>]\<rparr>\<close>
  by code_simp

text \<open>
  C5, amended. An invocation that is given the handler logger (the dispatch of a top-level
  file) emits exactly one handler-log line, also on the immediate-failure path: timestamp,
  resolved command, the arguments (substituted when a process is spawned, the templates as
  configured on the immediate-failure path), target path, method and request URI, remote
  address, and status 200 when the process exited 0 and 500 otherwise. An invocation that
  is given no logger (index-file resolution) emits none.
\<close>

theorem C5_one_handler_log_line_with_logger:
  "handlerLog (snd (handleWithExternal W w r handler filePath (Some HandlerSink) e)) =
     handlerLog e @
       [now_RFC3339 W @ '' | '' @ resolveHandlerCommand W (Command handler) @ '' | ''
        @ fmt_v (if isExecutable W (resolveHandlerCommand W (Command handler))
                 then map (\<lambda>arg. replaceAll arg ''{filepath}'' filePath) (Args handler)
                 else Args handler)
        @ '' | '' @ filePath @ '' | '' @ Method r @ '' '' @ URL_RequestURI r @ '' | ''
        @ RemoteAddr r @ '' | status=''
        @ (if isExecutable W (resolveHandlerCommand W (Command handler))
              \<and> snd (exec_Run W (handlerCmd W r handler filePath)) = Exited 0
           then ''200'' else ''500'')]
   \<and> handlerLog (snd (handleWithExternal W w r handler filePath None e)) = handlerLog e"
  by (simp add: handleWithExternal_log logIfSet_handlerLog handlerLogMsg_def itoa_200 itoa_500)

text \<open>
  C6. When a process is spawned, it is the assembled command, and its environment is the
  parent's environment followed by REQUEST_METHOD, QUERY_STRING, CONTENT_TYPE,
  CONTENT_LENGTH, SCRIPT_NAME (the request path), PATH_INFO (the resolved file path),
  REMOTE_ADDR, one HTTP_ variable per inbound header (hyphens replaced by underscores, the
  name upper-cased, the values comma-joined), HTTP_HOST, HTTP_COOKIE when the Cookie
  header has a value, SERVER_PROTOCOL, SERVER_NAME and SERVER_PORT split from the Host
  when it splits (else SERVER_NAME alone, the whole Host), and REQUEST_URI.
\<close>

theorem C6_child_environment:
  assumes "isExecutable W (resolveHandlerCommand W (Command handler))"
  shows "spawned (snd (handleWithExternal W w r handler filePath logger e))
           = spawned e @ [handlerCmd W r handler filePath]
     \<and> cmd_Env (handlerCmd W r handler filePath) =
         os_Environ W
         @ [''REQUEST_METHOD='' @ Method r,
            ''QUERY_STRING='' @ URL_RawQuery r,
            ''CONTENT_TYPE='' @ Header_Get r ''Content-Type'',
            ''CONTENT_LENGTH='' @ Header_Get r ''Content-Length'',
            ''SCRIPT_NAME='' @ URL_Path r,
            ''PATH_INFO='' @ filePath,
            ''REMOTE_ADDR='' @ RemoteAddr r]
         @ map (\<lambda>(name, values).
                  ''HTTP_''
                  @ strings_ToUpper W (map (\<lambda>c. if c = CHR ''-'' then CHR ''_'' else c) name)
                  @ ''='' @ join values '','') (Header r)
         @ [''HTTP_HOST='' @ Host r]
         @ (if Header_Get r ''Cookie'' \<noteq> [] then [''HTTP_COOKIE='' @ Header_Get r ''Cookie'']
            else [])
         @ [''SERVER_PROTOCOL='' @ Proto r]
         @ (case net_SplitHostPort W (Host r) of
              Some (host, port) \<Rightarrow> [''SERVER_NAME='' @ host, ''SERVER_PORT='' @ port]
            | None \<Rightarrow> [''SERVER_NAME='' @ Host r])
         @ [''REQUEST_URI='' @ RequestURI r]"
  using assms
  by (simp add: handleWithExternal_spawned handlerCmd_def cgiEnv_eq headerVar_eq)

theorem C6_witness:
  "isExecutable exWorld (resolveHandlerCommand exWorld
       (Command \<lparr>Command = ''/usr/bin/run'', Args = [''-f'', ''{filepath}'']\<rparr>))
   \<and> map cmd_Env (spawned (snd (handleWithExternal exWorld (newStatusWriter fresh_response 200)
        (exRequest ''/s.cgi'' [(''Accept-Language'', [''en'', ''fr'']), (''Cookie'', [''a=1''])])
        \<lparr>Command = ''/usr/bin/run'', Args = [''-f'', ''{filepath}'']\<rparr> ''/srv/www/s.cgi''
        (Some HandlerSink) no_effects)))
     = [[''PATH=/usr/bin'', ''REQUEST_METHOD=GET'', ''QUERY_STRING='', ''CONTENT_TYPE='',
         ''CONTENT_LENGTH='', ''SCRIPT_NAME=/s.cgi'', ''PATH_INFO=/srv/www/s.cgi'',
         ''REMOTE_ADDR=10.0.0.7:5555'', ''HTTP_ACCEPT_LANGUAGE=en,fr'', ''HTTP_COOKIE=a=1'',
         ''HTTP_HOST=example.org:8080'', ''HTTP_COOKIE=a=1'', ''SERVER_PROTOCOL=HTTP/1.1'',
         ''SERVER_NAME=example.org'', ''SERVER_PORT=8080'', ''REQUEST_URI=/s.cgi'']]"
proof -
  let ?h = "\<lparr>Command = ''/usr/bin/run'', Args = [''-f'', ''{filepath}'']\<rparr>"
  have h1: "isExecutable exWorld (resolveHandlerCommand exWorld (Command ?h))"
    using exWorld_run_ok by simp
  have env: "os_Environ exWorld = [''PATH=/usr/bin'']"
    and up: "strings_ToUpper exWorld = asciiUpper"
    and sp: "net_SplitHostPort exWorld ''example.org:8080'' = Some (''example.org'', ''8080'')"
    by (simp_all add: exWorld_def)
  show ?thesis
    using h1 C6_child_environment [OF h1, of "newStatusWriter fresh_response 200"
        "exRequest ''/s.cgi'' [(''Accept-Language'', [''en'', ''fr'']), (''Cookie'', [''a=1''])]"
        "''/srv/www/s.cgi''" "Some HandlerSink" no_effects]
    by (simp add: no_effects_def exRequest_def env up sp asciiUpper_def Header_Get_def hdr_Get_def)
qed

text \<open>
  C10, as stated, fails. With two Cookie values the loop's entry carries both, comma-joined,
  and the explicit entry carries the first only: the two HTTP_COOKIE entries differ. With
  an empty Cookie value the explicit entry is not appended: HTTP_COOKIE occurs once.
\<close>

theorem C10_counterexample_cookie_values_differ:
  "cgiEnv exWorld (exRequest ''/s.cgi'' [(''Cookie'', [''a=1'', ''b=2''])]) ''/srv/www/s.cgi''
     = [''PATH=/usr/bin'', ''REQUEST_METHOD=GET'', ''QUERY_STRING='', ''CONTENT_TYPE='',
        ''CONTENT_LENGTH='', ''SCRIPT_NAME=/s.cgi'', ''PATH_INFO=/srv/www/s.cgi'',
        ''REMOTE_ADDR=10.0.0.7:5555'', ''HTTP_COOKIE=a=1,b=2'',
        ''HTTP_HOST=example.org:8080'', ''HTTP_COOKIE=a=1'', ''SERVER_PROTOCOL=HTTP/1.1'',
        ''SERVER_NAME=example.org'', ''SERVER_PORT=8080'', ''REQUEST_URI=/s.cgi'']
   \<and> cgiEnv exWorld (exRequest ''/s.cgi'' [(''Cookie'', [[]])]) ''/srv/www/s.cgi''
     = [''PATH=/usr/bin'', ''REQUEST_METHOD=GET'', ''QUERY_STRING='', ''CONTENT_TYPE='',
        ''CONTENT_LENGTH='', ''SCRIPT_NAME=/s.cgi'', ''PATH_INFO=/srv/www/s.cgi'',
        ''REMOTE_ADDR=10.0.0.7:5555'', ''HTTP_COOKIE='',
        ''HTTP_HOST=example.org:8080'', ''SERVER_PROTOCOL=HTTP/1.1'',
        ''SERVER_NAME=example.org'', ''SERVER_PORT=8080'', ''REQUEST_URI=/s.cgi'']"
  by code_simp

text \<open>
  C10, amended. When the Cookie header's first value is not empty, the environment
  sequence holds two HTTP_COOKIE entries: the one of the per-header loop, carrying all the
  header's values comma-joined, and after it the explicitly appended one, carrying the
  first value. For a Cookie header with a single value the two entries are equal.
\<close>

theorem C10_two_cookie_entries:
  assumes "map_of (Header r) ''Cookie'' = Some (v # vs)"
      and "v \<noteq> []"
      and "strings_ToUpper W ''Cookie'' = ''COOKIE''"
  shows "\<exists>pre mid post.
           cgiEnv W r filePath =
             pre @ [''HTTP_COOKIE='' @ join (v # vs) '',''] @ mid @ [''HTTP_COOKIE='' @ v] @ post"
proof -
  from assms(1) have "(''Cookie'', v # vs) \<in> set (Header r)"
    by (rule map_of_SomeD)
  then obtain hs1 hs2 where hs: "Header r = hs1 @ (''Cookie'', v # vs) # hs2"
    by (auto simp: in_set_conv_decomp)
  have hv: "headerVar W (''Cookie'', v # vs) = ''HTTP_COOKIE='' @ join (v # vs) '',''"
    using assms(3) by (simp add: headerVar_def Let_def)
  have get: "Header_Get r ''Cookie'' = v"
    using assms(1) by (simp add: Header_Get_def hdr_Get_def)
  show ?thesis
    apply (rule exI [where x = "os_Environ W
     @ [''REQUEST_METHOD='' @ Method r,
        ''QUERY_STRING='' @ URL_RawQuery r,
        ''CONTENT_TYPE='' @ Header_Get r ''Content-Type'',
        ''CONTENT_LENGTH='' @ Header_Get r ''Content-Length'',
        ''SCRIPT_NAME='' @ URL_Path r,
        ''PATH_INFO='' @ filePath,
        ''REMOTE_ADDR='' @ RemoteAddr r] @ map (headerVar W) hs1"])
    apply (rule exI [where x = "map (headerVar W) hs2 @ [''HTTP_HOST='' @ Host r]"])
    apply (rule exI [where x = "[''SERVER_PROTOCOL='' @ Proto r]
     @ (case net_SplitHostPort W (Host r) of
          Some (host, port) \<Rightarrow> [''SERVER_NAME='' @ host, ''SERVER_PORT='' @ port]
        | None \<Rightarrow> [''SERVER_NAME='' @ Host r])
     @ [''REQUEST_URI='' @ RequestURI r]"])
    using assms(2) by (simp add: cgiEnv_eq hs hv get del: join.simps)
qed

theorem C10_witness:
  "map_of (Header (exRequest ''/s.cgi'' [(''Cookie'', [''a=1''])])) ''Cookie'' = Some [''a=1'']
   \<and> ''a=1'' \<noteq> []
   \<and> strings_ToUpper exWorld ''Cookie'' = ''COOKIE''
   \<and> (\<exists>pre mid post.
         cgiEnv exWorld (exRequest ''/s.cgi'' [(''Cookie'', [''a=1''])]) ''/srv/www/s.cgi'' =
           pre @ [''HTTP_COOKIE=a=1''] @ mid @ [''HTTP_COOKIE=a=1''] @ post)"
proof -
  have h1: "map_of (Header (exRequest ''/s.cgi'' [(''Cookie'', [''a=1''])])) ''Cookie''
              = Some [''a=1'']"
    by (simp add: exRequest_def)
  have h2: "''a=1'' \<noteq> []" by simp
  have h3: "strings_ToUpper exWorld ''Cookie'' = ''COOKIE''"
    by (simp add: exWorld_def asciiUpper_def)
  show ?thesis
    using h1 h2 h3 C10_two_cookie_entries [OF h1 h2 h3, of "''/srv/www/s.cgi''"]
    by simp
qed

section \<open>Index resolution and the branches of the dispatcher\<close>

lemma tryServe_find:
  "tryServeIndexWithHandler W w r dirPath indexes handlers e =
     (case find (\<lambda>idx. statIsFile W (filepath_Join W dirPath idx)) indexes of
        None \<Rightarrow> (False, w, e)
      | Some idx \<Rightarrow>
          (case handlers (strings_ToLower W (Ext (filepath_Join W dirPath idx))) of
             Some handler \<Rightarrow>
               (True, handleWithExternal W w r handler (filepath_Join W dirPath idx) None e)
           | None \<Rightarrow> (True, ServeFile W w r (filepath_Join W dirPath idx), e)))"
  by (induction indexes) (simp_all add: Let_def split: option.splits prod.splits)

lemma handleWithExternal_ReadDir:
  "handleWithExternal (W\<lparr>os_ReadDir := rd\<rparr>) = handleWithExternal W"
  by (intro ext)
     (simp add: handleWithExternal_def resolveHandlerCommand_def isExecutable_def cgiEnv_def
        headerVar_def handlerLogMsg_def Let_def)

lemma tryServe_ReadDir:
  "tryServeIndexWithHandler (W\<lparr>os_ReadDir := rd\<rparr>) w r dirPath indexes handlers e =
     tryServeIndexWithHandler W w r dirPath indexes handlers e"
  by (induction indexes)
     (simp_all add: Let_def handleWithExternal_ReadDir statIsFile_def ServeFile_def
        split: option.splits)

lemma rootHandler_file:
  assumes "os_Stat W (HomeDir cfg @ URL_Path r) = Some stat" and "\<not> IsDir stat"
  shows "rootHandler W cfg w r e =
     (case Handlers cfg (strings_ToLower W (Ext (HomeDir cfg @ URL_Path r))) of
        Some handler \<Rightarrow>
          (let (ww, e1) = handleWithExternal W (newStatusWriter w 200) r handler
                            (HomeDir cfg @ URL_Path r) (Some HandlerSink) e;
               e2 = (if Status ww \<ge> 400 then logLine ErrorSink (errorLogMsg r ww) e1 else e1)
           in Inr (ResponseWriter ww, logAccess W r ww e2))
      | None \<Rightarrow>
          (let ww = ServeFile W (newStatusWriter w 200) r (HomeDir cfg @ URL_Path r)
           in Inr (ResponseWriter ww, logAccess W r ww e)))"
  using assms by (simp add: rootHandler_def Let_def split: option.splits prod.splits)

lemma rootHandler_dir:
  assumes "os_Stat W (HomeDir cfg @ URL_Path r) = Some stat" and "IsDir stat"
  shows "rootHandler W cfg w r e =
     (let (served, ww, e1) =
            tryServeIndexWithHandler W (newStatusWriter w 200) r (HomeDir cfg @ URL_Path r)
              (DefaultIndexes cfg) (Handlers cfg) e
      in if served then Inr (ResponseWriter ww, logAccess W r ww e1)
         else (case RenderDirList W (ResponseWriter ww) r (HomeDir cfg @ URL_Path r) (URL_Path r)
               of Inl f \<Rightarrow> Inl f | Inr w' \<Rightarrow> Inr (w', e1)))"
  using assms by (simp add: rootHandler_def Let_def split: option.splits prod.splits)

lemma find_None_all: "find P xs = None \<longleftrightarrow> (\<forall>x\<in>set xs. \<not> P x)"
  by (induction xs) auto

lemma builtinEntry_ReadFile:
  "builtinEntry (W\<lparr>os_ReadFile := rf\<rparr>) = builtinEntry W"
  by (intro ext) (simp add: builtinEntry_def)

lemma builtinTemplate_ReadFile:
  "builtinTemplate (W\<lparr>os_ReadFile := rf\<rparr>) = builtinTemplate W"
  by (intro ext) (simp add: builtinTemplate_def builtinEntry_ReadFile)

lemma RenderDirList_ReadFile:
  "RenderDirList (W\<lparr>os_ReadFile := rf\<rparr>) = RenderDirList W"
  by (intro ext)
     (simp add: RenderDirList_def builtinTemplate_ReadFile Let_def
        split: option.splits sum.splits)

lemma statIsFile_ReadFile: "statIsFile (W\<lparr>os_ReadFile := rf\<rparr>) = statIsFile W"
  by (intro ext) (simp add: statIsFile_def)

lemma rootHandler_listing:
  assumes "os_Stat W (HomeDir cfg @ URL_Path r) = Some stat" and "IsDir stat"
      and "\<forall>idx\<in>set (DefaultIndexes cfg).
             \<not> statIsFile W (filepath_Join W (HomeDir cfg @ URL_Path r) idx)"
  shows "rootHandler W cfg w r e =
           (case RenderDirList W w r (HomeDir cfg @ URL_Path r) (URL_Path r) of
              Inl f \<Rightarrow> Inl f | Inr w' \<Rightarrow> Inr (w', e))"
proof -
  have none: "find (\<lambda>idx. statIsFile W (filepath_Join W (HomeDir cfg @ URL_Path r) idx))
                (DefaultIndexes cfg) = None"
    using assms(3) by (simp add: find_None_all)
  show ?thesis
    by (simp add: rootHandler_dir [OF assms(1,2)] tryServe_find none newStatusWriter_def)
qed

lemma final_status_unwritten: "\<not> wroteHeader w \<Longrightarrow> final_status w = 200"
  by (simp add: final_status_def)

lemma RenderDirList_status:
  assumes "\<not> wroteHeader w" and "RenderDirList W w r dirPath urlPath = Inr w'"
  shows "final_status w' = 200 \<or> final_status w' = 500"
  using assms
  by (auto simp: RenderDirList_def Let_def rw_Write_fresh rw_Write_after_header
      final_status_unwritten split: option.splits sum.splits if_splits)

text \<open>
  C7. Index resolution takes the first configured name, in configuration order, whose
  path under the directory can be stat'ed and is not a directory; it never lists the
  directory, so the result does not depend on what enumerating it returns. The lowercase
  extension of the index file found is looked up in the handler map: on a match the
  external handler is invoked on that file, otherwise the file is served statically. A
  top-level file is dispatched by the same lookup on its own lowercase extension.
\<close>

theorem C7_index_resolution_in_configuration_order:
  "tryServeIndexWithHandler W w r dirPath indexes handlers e =
     (case find (\<lambda>idx. case os_Stat W (filepath_Join W dirPath idx) of
                           None \<Rightarrow> False | Some stat \<Rightarrow> \<not> IsDir stat) indexes of
        None \<Rightarrow> (False, w, e)
      | Some idx \<Rightarrow>
          (case handlers (strings_ToLower W (Ext (filepath_Join W dirPath idx))) of
             Some handler \<Rightarrow>
               (True, handleWithExternal W w r handler (filepath_Join W dirPath idx) None e)
           | None \<Rightarrow> (True, ServeFile W w r (filepath_Join W dirPath idx), e)))
   \<and> tryServeIndexWithHandler (W\<lparr>os_ReadDir := rd\<rparr>) w r dirPath indexes handlers e =
       tryServeIndexWithHandler W w r dirPath indexes handlers e
   \<and> ((case os_Stat W (HomeDir cfg @ URL_Path r0) of
          None \<Rightarrow> False | Some stat \<Rightarrow> \<not> IsDir stat) \<longrightarrow>
       map_sum id fst (rootHandler W cfg w0 r0 e0) =
         Inr (ResponseWriter
           (case Handlers cfg (strings_ToLower W (Ext (HomeDir cfg @ URL_Path r0))) of
              Some handler \<Rightarrow>
                fst (handleWithExternal W (newStatusWriter w0 200) r0 handler
                       (HomeDir cfg @ URL_Path r0) (Some HandlerSink) e0)
            | None \<Rightarrow> ServeFile W (newStatusWriter w0 200) r0 (HomeDir cfg @ URL_Path r0))))"
proof (intro conjI impI)
  show "tryServeIndexWithHandler W w r dirPath indexes handlers e =
     (case find (\<lambda>idx. case os_Stat W (filepath_Join W dirPath idx) of
                           None \<Rightarrow> False | Some stat \<Rightarrow> \<not> IsDir stat) indexes of
        None \<Rightarrow> (False, w, e)
      | Some idx \<Rightarrow>
          (case handlers (strings_ToLower W (Ext (filepath_Join W dirPath idx))) of
             Some handler \<Rightarrow>
               (True, handleWithExternal W w r handler (filepath_Join W dirPath idx) None e)
           | None \<Rightarrow> (True, ServeFile W w r (filepath_Join W dirPath idx), e)))"
    using tryServe_find [of W w r dirPath indexes handlers e]
    by (simp add: statIsFile_def)
next
  show "tryServeIndexWithHandler (W\<lparr>os_ReadDir := rd\<rparr>) w r dirPath indexes handlers e =
       tryServeIndexWithHandler W w r dirPath indexes handlers e"
    by (rule tryServe_ReadDir)
next
  assume "case os_Stat W (HomeDir cfg @ URL_Path r0) of
          None \<Rightarrow> False | Some stat \<Rightarrow> \<not> IsDir stat"
  then obtain stat where st: "os_Stat W (HomeDir cfg @ URL_Path r0) = Some stat" "\<not> IsDir stat"
    by (auto split: option.splits)
  show "map_sum id fst (rootHandler W cfg w0 r0 e0) =
         Inr (ResponseWriter
           (case Handlers cfg (strings_ToLower W (Ext (HomeDir cfg @ URL_Path r0))) of
              Some handler \<Rightarrow>
                fst (handleWithExternal W (newStatusWriter w0 200) r0 handler
                       (HomeDir cfg @ URL_Path r0) (Some HandlerSink) e0)
            | None \<Rightarrow> ServeFile W (newStatusWriter w0 200) r0 (HomeDir cfg @ URL_Path r0)))"
    by (simp add: rootHandler_file [OF st] Let_def split: option.splits prod.splits)
qed

theorem C7_witness:
  "fst (tryServeIndexWithHandler exWorld (newStatusWriter fresh_response 200)
          (exRequest ''/app'' []) ''/srv/www/app'' [''index.html'', ''index.cgi'', ''index.bad'']
          exHandlers no_effects)
   \<and> map cmd_Args (spawned (snd (snd (tryServeIndexWithHandler exWorld
          (newStatusWriter fresh_response 200)
          (exRequest ''/app'' []) ''/srv/www/app'' [''index.html'', ''index.cgi'', ''index.bad'']
          exHandlers no_effects)))) = [[''-f'', ''/srv/www/app/index.cgi'']]
   \<and> (case os_Stat exWorld (HomeDir exConfig @ URL_Path (exRequest ''/a.html'' [])) of
          None \<Rightarrow> False | Some stat \<Rightarrow> \<not> IsDir stat)
   \<and> map_sum id sent_body
         (map_sum id fst (rootHandler exWorld exConfig fresh_response (exRequest ''/a.html'' [])
            no_effects)) = Inr ''<p>a</p>''"
proof -
  have h: "case os_Stat exWorld (HomeDir exConfig @ URL_Path (exRequest ''/a.html'' [])) of
          None \<Rightarrow> False | Some stat \<Rightarrow> \<not> IsDir stat"
    by (simp add: exWorld_def exConfig_def exRequest_def exFiles_def regularFile_def)
  have f: "find (\<lambda>idx. case os_Stat exWorld (filepath_Join exWorld ''/srv/www/app'' idx) of
                           None \<Rightarrow> False | Some stat \<Rightarrow> \<not> IsDir stat)
             [''index.html'', ''index.cgi'', ''index.bad''] = Some ''index.cgi''"
    by (simp add: exWorld_def exFiles_def regularFile_def)
  have j: "filepath_Join exWorld ''/srv/www/app'' ''index.cgi'' = ''/srv/www/app/index.cgi''"
    by (simp add: exWorld_def)
  have l: "exHandlers (strings_ToLower exWorld (Ext ''/srv/www/app/index.cgi''))
             = Some \<lparr>Command = ''/usr/bin/run'', Args = [''-f'', ''{filepath}'']\<rparr>"
    by (simp add: exWorld_def Ext_def asciiLower_def exHandlers_def)
  have l2: "Handlers exConfig (strings_ToLower exWorld
              (Ext (HomeDir exConfig @ URL_Path (exRequest ''/a.html'' [])))) = None"
    by (simp add: exWorld_def Ext_def asciiLower_def exHandlers_def exConfig_def exRequest_def)
  have sf: "sent_body (ResponseWriter (ServeFile exWorld (newStatusWriter fresh_response 200)
              (exRequest ''/a.html'' []) (HomeDir exConfig @ URL_Path (exRequest ''/a.html'' []))))
            = ''<p>a</p>''"
    by (simp add: ServeFile_def exWorld_def exConfig_def exRequest_def sw_Write_simps
        sw_WriteHeader_simps sw_HeaderSet_simps rw_Write_body rw_WriteHeader_body
        rw_HeaderSet_simps newStatusWriter_def fresh_response_def)
  have sp: "spawned (snd (handleWithExternal exWorld (newStatusWriter fresh_response 200)
                (exRequest ''/app'' [])
                \<lparr>Command = ''/usr/bin/run'', Args = [''-f'', ''{filepath}'']\<rparr>
                ''/srv/www/app/index.cgi'' None no_effects))
            = [handlerCmd exWorld (exRequest ''/app'' [])
                \<lparr>Command = ''/usr/bin/run'', Args = [''-f'', ''{filepath}'']\<rparr>
                ''/srv/www/app/index.cgi'']"
    using exWorld_run_ok by (simp add: handleWithExternal_spawned no_effects_def)
  have a: "tryServeIndexWithHandler exWorld (newStatusWriter fresh_response 200)
          (exRequest ''/app'' []) ''/srv/www/app'' [''index.html'', ''index.cgi'', ''index.bad'']
          exHandlers no_effects
        = (True, handleWithExternal exWorld (newStatusWriter fresh_response 200)
                (exRequest ''/app'' [])
                \<lparr>Command = ''/usr/bin/run'', Args = [''-f'', ''{filepath}'']\<rparr>
                ''/srv/www/app/index.cgi'' None no_effects)"
    by (simp only: C7_index_resolution_in_configuration_order [THEN conjunct1] f j l option.case)
  have b: "map_sum id fst (rootHandler exWorld exConfig fresh_response (exRequest ''/a.html'' [])
            no_effects)
        = Inr (ResponseWriter (ServeFile exWorld (newStatusWriter fresh_response 200)
              (exRequest ''/a.html'' []) (HomeDir exConfig @ URL_Path (exRequest ''/a.html'' []))))"
    using C7_index_resolution_in_configuration_order [THEN conjunct2, THEN conjunct2, THEN mp, OF h, of fresh_response no_effects]
    by (simp only: l2 option.case)
  show ?thesis
    unfolding a b using h by (simp add: sf sp handlerCmd_def)
qed

lemma exWorld_sub_no_index:
  "list_all (\<lambda>idx. \<not> statIsFile exWorld (filepath_Join exWorld ''/srv/www/sub'' idx))
     [''index.html'', ''index.cgi'', ''index.bad'']"
  by (simp add: statIsFile_def exWorld_def exFiles_def)

text \<open>
  C2. For a request that resolves to an existing directory in which no configured index
  name is an existing non-directory, the dispatcher's answer is the directory-listing
  renderer's, with no log line added. The answer does not depend on the configured error
  pages nor on the content of any file \<^verbatim>\<open>serveErrorPage\<close> would read, and its status is
  200 or 500, never 404.
\<close>

theorem C2_directory_without_index_is_listed:
  assumes "os_Stat W (HomeDir cfg @ URL_Path r) = Some stat" and "IsDir stat"
      and "\<forall>idx\<in>set (DefaultIndexes cfg).
             \<not> statIsFile W (filepath_Join W (HomeDir cfg @ URL_Path r) idx)"
      and "\<not> wroteHeader w"
  shows "rootHandler W cfg w r e =
           (case RenderDirList W w r (HomeDir cfg @ URL_Path r) (URL_Path r) of
              Inl f \<Rightarrow> Inl f | Inr w' \<Rightarrow> Inr (w', e))
         \<and> rootHandler W (cfg\<lparr>ErrorPages := pages\<rparr>) w r e = rootHandler W cfg w r e
         \<and> rootHandler (W\<lparr>os_ReadFile := rf\<rparr>) cfg w r e = rootHandler W cfg w r e
         \<and> (\<forall>w' e'. rootHandler W cfg w r e = Inr (w', e')
               \<longrightarrow> final_status w' = 200 \<or> final_status w' = 500)"
proof -
  note a = rootHandler_listing [OF assms(1-3)]
  have b: "rootHandler W (cfg\<lparr>ErrorPages := pages\<rparr>) w r e =
           (case RenderDirList W w r (HomeDir cfg @ URL_Path r) (URL_Path r) of
              Inl f \<Rightarrow> Inl f | Inr w' \<Rightarrow> Inr (w', e))"
    using rootHandler_listing [of W "cfg\<lparr>ErrorPages := pages\<rparr>" r stat w e] assms(1-3)
    by simp
  have c: "rootHandler (W\<lparr>os_ReadFile := rf\<rparr>) cfg w r e =
           (case RenderDirList W w r (HomeDir cfg @ URL_Path r) (URL_Path r) of
              Inl f \<Rightarrow> Inl f | Inr w' \<Rightarrow> Inr (w', e))"
    using rootHandler_listing [of "W\<lparr>os_ReadFile := rf\<rparr>" cfg r stat w e] assms(1-3)
    by (simp add: RenderDirList_ReadFile statIsFile_ReadFile)
  have d: "final_status w' = 200 \<or> final_status w' = 500"
    if "rootHandler W cfg w r e = Inr (w', e')" for w' e'
  proof -
    from that a have "RenderDirList W w r (HomeDir cfg @ URL_Path r) (URL_Path r) = Inr w'"
      by (simp split: sum.splits)
    from RenderDirList_status [OF assms(4) this] show ?thesis .
  qed
  show ?thesis
    using a b c d by simp
qed

theorem C2_witness:
  "os_Stat exWorld (HomeDir exConfig @ URL_Path (exRequest ''/sub'' [])) = Some directory
   \<and> IsDir directory
   \<and> list_all (\<lambda>idx. \<not> statIsFile exWorld
         (filepath_Join exWorld (HomeDir exConfig @ URL_Path (exRequest ''/sub'' [])) idx))
       (DefaultIndexes exConfig)
   \<and> \<not> wroteHeader fresh_response
   \<and> rootHandler exWorld exConfig fresh_response (exRequest ''/sub'' []) no_effects =
       (case RenderDirList exWorld fresh_response (exRequest ''/sub'' []) ''/srv/www/sub'' ''/sub''
        of Inl f \<Rightarrow> Inl f | Inr w' \<Rightarrow> Inr (w', no_effects))
   \<and> rootHandler exWorld (exConfig\<lparr>ErrorPages := \<lparr>NotFound = [], Internal = []\<rparr>\<rparr>)
         fresh_response (exRequest ''/sub'' []) no_effects =
       rootHandler exWorld exConfig fresh_response (exRequest ''/sub'' []) no_effects"
proof -
  have p: "HomeDir exConfig = ''/srv/www''"
      "URL_Path (exRequest ''/sub'' []) = ''/sub''"
      "DefaultIndexes exConfig = [''index.html'', ''index.cgi'', ''index.bad'']"
    by (simp_all add: exConfig_def exRequest_def)
  have h1: "os_Stat exWorld (HomeDir exConfig @ URL_Path (exRequest ''/sub'' [])) = Some directory"
    by (simp add: p exWorld_def exFiles_def)
  have h2: "IsDir directory" by (simp add: directory_def)
  have h3l: "list_all (\<lambda>idx. \<not> statIsFile exWorld
         (filepath_Join exWorld (HomeDir exConfig @ URL_Path (exRequest ''/sub'' [])) idx))
       (DefaultIndexes exConfig)"
    using exWorld_sub_no_index by (simp add: p)
  then have h3: "\<forall>idx\<in>set (DefaultIndexes exConfig). \<not> statIsFile exWorld
         (filepath_Join exWorld (HomeDir exConfig @ URL_Path (exRequest ''/sub'' [])) idx)"
    by (simp only: list_all_iff)
  have h4: "\<not> wroteHeader fresh_response" by (simp add: fresh_response_def)
  note c = C2_directory_without_index_is_listed [OF h1 h2 h3 h4, of no_effects "\<lparr>NotFound = [], Internal = []\<rparr>"]
  show ?thesis
    using h1 h2 h3l h4 c [THEN conjunct1] c [THEN conjunct2, THEN conjunct1]
    by (simp add: p)
qed

text \<open>
  C1 (every branch wrapped, one access-log line, one error-log line when the status is at
  least 400) against the code. A request for \<^verbatim>\<open>/sub\<close>, a directory without index
  file, is answered 200 by the listing, written to the unwrapped writer, and no access-log
  line is emitted. A request for \<^verbatim>\<open>/bad\<close>, a directory whose index file is mapped to a
  handler that is not executable, is answered 500 with one access-log line and no
  error-log line.
\<close>

theorem C1_listing_and_index_branches_logging:
  \<open>map_sum id (\<lambda>(w, e). (final_status w, e))
      (rootHandler exWorld exConfig fresh_response (exRequest ''/sub'' []) no_effects)
     = Inr (200, \<lparr>accessLog = [], errorLog = [], handlerLog = [], spawned = []\<rparr>)
   \<and> map_sum id (\<lambda>(w, e). (final_status w, e))
      (rootHandler exWorld exConfig fresh_response (exRequest ''/bad'' []) no_effects)
     = Inr (500, \<lparr>accessLog = [''10.0.0.7 - - [06/May/2024:07:08:09 +0000] "GET /bad HTTP/1.1" 500 59 "-" "-"''],
                  errorLog = [], handlerLog = [], spawned = []\<rparr>)\<close>
  by code_simp

section \<open>The directory listing\<close>

lemma collectInfos_ok:
  "map de_Info files = map Some finfos \<Longrightarrow>
   collectInfos files acc =
     Inr (acc @ map2 (\<lambda>f info. \<lparr>Name = de_Name f, isDir = de_IsDir f, size = Size info,
                                   modTime = ModTime info\<rparr>) files finfos)"
proof (induction files arbitrary: acc finfos)
  case Nil
  then show ?case by simp
next
  case (Cons f files)
  then obtain i is' where fi: "finfos = i # is'" by (cases finfos) auto
  with Cons.prems have "de_Info f = Some i" "map de_Info files = map Some is'" by auto
  with Cons.IH [of is'] fi show ?case by simp
qed

lemma collectInfos_fault:
  "None \<in> set (map de_Info files) \<Longrightarrow> collectInfos files acc = Inl NilPointerDereference"
  by (induction files arbitrary: acc) (auto split: option.splits)

lemma names_of_infos:
  "length finfos = length files \<Longrightarrow>
   map (\<lambda>i. (Name i, isDir i))
     (map2 (\<lambda>f info. \<lparr>Name = de_Name f, isDir = de_IsDir f, size = Size info,
                        modTime = ModTime info\<rparr>) files finfos)
   = map (\<lambda>f. (de_Name f, de_IsDir f)) files"
  by (induction files finfos rule: list_induct2') simp_all

lemma builtinEntry_fun:
  \<open>builtinEntry W prefix =
     (\<lambda>i. ''<li><a href="'' @ esc_href_start W prefix
            @ esc_href_part W (Name i) @ (if isDir i then ''/'' else [])
            @ ''">'' @ esc_html W (Name i) @ (if isDir i then ''/'' else [])
            @ ''</a></li>'')\<close>
  by (rule ext) (simp only: builtinEntry_def)


lemma RenderDirList_listing:
  assumes "os_ReadDir W dirPath = Some files"
      and "map de_Info files = map Some finfos"
      and "infos = sort_key Name
             (map2 (\<lambda>f info. \<lparr>Name = de_Name f, isDir = de_IsDir f, size = Size info,
                                modTime = ModTime info\<rparr>) files finfos)"
      and "out = (case tmpl_File W of Some t \<Rightarrow> t | None \<Rightarrow> builtinTemplate W)
                   \<lparr>td_Path = urlPath, td_Files = infos, td_Prefix = URLQueryEscaper W urlPath\<rparr>"
  shows "RenderDirList W w r dirPath urlPath = Inr (if out = [] then w else fst (rw_Write out w))"
  unfolding assms(3,4) RenderDirList_def
  using assms(1) collectInfos_ok [OF assms(2), of "[]"]
  by (simp add: Let_def)

lemma mset_listing:
  assumes "map de_Info files = map Some finfos"
  shows "mset (map (\<lambda>i. (Name i, isDir i))
           (sort_key Name
             (map2 (\<lambda>f info. \<lparr>Name = de_Name f, isDir = de_IsDir f, size = Size info,
                                modTime = ModTime info\<rparr>) files finfos)))
         = mset (map (\<lambda>f. (de_Name f, de_IsDir f)) files)"
proof -
  from assms have "length (map de_Info files) = length (map Some finfos)"
    by (rule arg_cong)
  then have len: "length finfos = length files"
    by simp
  have "mset (map (\<lambda>i. (Name i, isDir i))
           (sort_key Name
             (map2 (\<lambda>f info. \<lparr>Name = de_Name f, isDir = de_IsDir f, size = Size info,
                                modTime = ModTime info\<rparr>) files finfos)))
        = mset (map (\<lambda>i. (Name i, isDir i))
             (map2 (\<lambda>f info. \<lparr>Name = de_Name f, isDir = de_IsDir f, size = Size info,
                                modTime = ModTime info\<rparr>) files finfos))"
    by (simp only: mset_map mset_sort)
  also have "\<dots> = mset (map (\<lambda>f. (de_Name f, de_IsDir f)) files)"
    by (simp only: names_of_infos [OF len])
  finally show ?thesis .
qed

lemma builtinTemplate_explicit:
  \<open>builtinTemplate W \<lparr>td_Path = urlPath, td_Files = infos, td_Prefix = prefix\<rparr> =
             ''<html><head><title>Index of '' @ esc_rcdata W urlPath
             @ ''</title></head><body><h1>Index of '' @ esc_html W urlPath @ ''</h1><ul>''
             @ concat (map (\<lambda>i. ''<li><a href="'' @ esc_href_start W prefix
                                  @ esc_href_part W (Name i) @ (if isDir i then ''/'' else [])
                                  @ ''">'' @ esc_html W (Name i) @ (if isDir i then ''/'' else [])
                                  @ ''</a></li>'') infos)
             @ ''</ul></body></html>''\<close>
  by (simp only: builtinTemplate_def builtinEntry_fun TemplateData.simps)

lemma exWorld_gone_no_index:
  "list_all (\<lambda>idx. \<not> statIsFile exWorld (filepath_Join exWorld ''/srv/www/gone'' idx))
     [''index.html'', ''index.cgi'', ''index.bad'']"
  by (simp add: statIsFile_def exWorld_def exFiles_def)

text \<open>
  C9 (the renderer is total even when an entry's \<^verbatim>\<open>Info()\<close> fails) against the code.
  The directory \<^verbatim>\<open>/srv/www/gone\<close> can be enumerated and the lookup of its entry
  \<^verbatim>\<open>tmp\<close> fails: the renderer reads the size of the nil \<^verbatim>\<open>FileInfo\<close> and panics, and
  so does the request handler; no response is produced.
\<close>

theorem C9_listing_panics_when_info_fails:
  "RenderDirList exWorld fresh_response (exRequest ''/gone'' []) ''/srv/www/gone'' ''/gone''
     = Inl NilPointerDereference
   \<and> rootHandler exWorld exConfig fresh_response (exRequest ''/gone'' []) no_effects
     = Inl NilPointerDereference"
proof -
  have r: "RenderDirList exWorld fresh_response (exRequest ''/gone'' []) ''/srv/www/gone'' ''/gone''
     = Inl NilPointerDereference"
    by (simp add: RenderDirList_def exWorld_def exDirs_def)
  have p: "HomeDir exConfig = ''/srv/www''"
      "URL_Path (exRequest ''/gone'' []) = ''/gone''"
      "DefaultIndexes exConfig = [''index.html'', ''index.cgi'', ''index.bad'']"
    by (simp_all add: exConfig_def exRequest_def)
  have h1: "os_Stat exWorld (HomeDir exConfig @ URL_Path (exRequest ''/gone'' [])) = Some directory"
    by (simp add: p exWorld_def exFiles_def)
  have h2: "IsDir directory" by (simp add: directory_def)
  have h3: "\<forall>idx\<in>set (DefaultIndexes exConfig). \<not> statIsFile exWorld
         (filepath_Join exWorld (HomeDir exConfig @ URL_Path (exRequest ''/gone'' [])) idx)"
    using exWorld_gone_no_index by (simp add: p)
  show ?thesis
    using r rootHandler_listing [OF h1 h2 h3, of fresh_response no_effects]
    by (simp add: p)
qed

text \<open>
  C8, as stated, fails: the markup is the template's. With a custom
  \<^verbatim>\<open>html/dirlist.html\<close> that prints each name as it is, the directory \<^verbatim>\<open>a\<close> of
  \<^verbatim>\<open>/srv/www/sub\<close> is rendered without a trailing slash, in link text and href.
\<close>

theorem C8_counterexample_custom_template_no_slash:
  \<open>map_sum id sent_body
     (RenderDirList (exWorld\<lparr>tmpl_File := Some plainTemplate\<rparr>) fresh_response
        (exRequest ''/sub'' []) ''/srv/www/sub'' ''/sub'')
    = Inr ''<a href="Z.md">Z.md</a><a href="a">a</a><a href="b.txt">b.txt</a>''\<close>
  by code_simp

text \<open>
  C8, amended. When the directory can be read and every entry's lookup succeeds, the
  entries given to the template (the custom one when it loads, else the built-in one) are
  the directory's immediate children, each once with its directory flag, no other entry,
  sorted by name ascending byte-wise; and the built-in template renders every entry that
  is a directory with a trailing slash after its name in both the href and the link text.
\<close>

theorem C8_listing_sorted_children:
  assumes "os_ReadDir W dirPath = Some files"
      and "map de_Info files = map Some finfos"
      and "infos = sort_key Name
             (map2 (\<lambda>f info. \<lparr>Name = de_Name f, isDir = de_IsDir f, size = Size info,
                                modTime = ModTime info\<rparr>) files finfos)"
      and "out = (case tmpl_File W of Some t \<Rightarrow> t | None \<Rightarrow> builtinTemplate W)
                   \<lparr>td_Path = urlPath, td_Files = infos, td_Prefix = URLQueryEscaper W urlPath\<rparr>"
  shows \<open>RenderDirList W w r dirPath urlPath = Inr (if out = [] then w else fst (rw_Write out w))
         \<and> sorted (map Name infos)
         \<and> mset (map (\<lambda>i. (Name i, isDir i)) infos) = mset (map (\<lambda>f. (de_Name f, de_IsDir f)) files)
         \<and> builtinTemplate W \<lparr>td_Path = urlPath, td_Files = infos, td_Prefix = prefix\<rparr> =
             ''<html><head><title>Index of '' @ esc_rcdata W urlPath
             @ ''</title></head><body><h1>Index of '' @ esc_html W urlPath @ ''</h1><ul>''
             @ concat (map (\<lambda>i. ''<li><a href="'' @ esc_href_start W prefix
                                  @ esc_href_part W (Name i) @ (if isDir i then ''/'' else [])
                                  @ ''">'' @ esc_html W (Name i) @ (if isDir i then ''/'' else [])
                                  @ ''</a></li>'') infos)
             @ ''</ul></body></html>''\<close>
proof (intro conjI)
  show "RenderDirList W w r dirPath urlPath = Inr (if out = [] then w else fst (rw_Write out w))"
    by (rule RenderDirList_listing [OF assms])
next
  show "sorted (map Name infos)"
    unfolding assms(3) by (rule sorted_sort_key)
next
  show "mset (map (\<lambda>i. (Name i, isDir i)) infos) = mset (map (\<lambda>f. (de_Name f, de_IsDir f)) files)"
    unfolding assms(3) by (rule mset_listing [OF assms(2)])
next
  show \<open>builtinTemplate W \<lparr>td_Path = urlPath, td_Files = infos, td_Prefix = prefix\<rparr> =
             ''<html><head><title>Index of '' @ esc_rcdata W urlPath
             @ ''</title></head><body><h1>Index of '' @ esc_html W urlPath @ ''</h1><ul>''
             @ concat (map (\<lambda>i. ''<li><a href="'' @ esc_href_start W prefix
                                  @ esc_href_part W (Name i) @ (if isDir i then ''/'' else [])
                                  @ ''">'' @ esc_html W (Name i) @ (if isDir i then ''/'' else [])
                                  @ ''</a></li>'') infos)
             @ ''</ul></body></html>''\<close>
    by (rule builtinTemplate_explicit)
qed

theorem C8_witness:
  \<open>os_ReadDir exWorld ''/srv/www/sub'' =
      Some [\<lparr>de_Name = ''Z.md'', de_IsDir = False, de_Info = Some (regularFile 0x1A4)\<rparr>,
            \<lparr>de_Name = ''a'', de_IsDir = True, de_Info = Some directory\<rparr>,
            \<lparr>de_Name = ''b.txt'', de_IsDir = False, de_Info = Some (regularFile 0x1A4)\<rparr>]
   \<and> map_sum id sent_body
        (RenderDirList exWorld fresh_response (exRequest ''/sub'' []) ''/srv/www/sub'' ''/sub'')
      = Inr (''<html><head><title>Index of /sub</title></head><body><h1>Index of /sub</h1><ul>''
             @ ''<li><a href="%2FsubZ.md">Z.md</a></li>''
             @ ''<li><a href="%2Fsuba/">a/</a></li>''
             @ ''<li><a href="%2Fsubb.txt">b.txt</a></li>''
             @ ''</ul></body></html>'')\<close>
proof -
  let ?files = "[\<lparr>de_Name = ''Z.md'', de_IsDir = False, de_Info = Some (regularFile 0x1A4)\<rparr>,
            \<lparr>de_Name = ''a'', de_IsDir = True, de_Info = Some directory\<rparr>,
            \<lparr>de_Name = ''b.txt'', de_IsDir = False, de_Info = Some (regularFile 0x1A4)\<rparr>]"
  have h1: "os_ReadDir exWorld ''/srv/www/sub'' = Some ?files"
    by (simp add: exWorld_def exDirs_def)
  have h2: "map de_Info ?files = map Some [regularFile 0x1A4, directory, regularFile 0x1A4]"
    by simp
  have h3: "subInfos = sort_key Name
             (map2 (\<lambda>f info. \<lparr>Name = de_Name f, isDir = de_IsDir f, size = Size info,
                                modTime = ModTime info\<rparr>) ?files
                [regularFile 0x1A4, directory, regularFile 0x1A4])"
    by (simp add: subInfos_def regularFile_def directory_def)
  have t: "tmpl_File exWorld = None" "URLQueryEscaper exWorld ''/sub'' = ''%2Fsub''"
     "esc_rcdata exWorld = (\<lambda>s. s)" "esc_html exWorld = (\<lambda>s. s)"
     "esc_href_start exWorld = (\<lambda>s. s)" "esc_href_part exWorld = (\<lambda>s. s)"
    by (simp_all add: exWorld_def)
  note c = C8_listing_sorted_children [OF h1 h2 h3 refl, where urlPath = "''/sub''" and w = fresh_response
      and r = "exRequest ''/sub'' []" and prefix = "''%2Fsub''"]
  have out: \<open>builtinTemplate exWorld \<lparr>td_Path = ''/sub'', td_Files = subInfos, td_Prefix = ''%2Fsub''\<rparr>
      = ''<html><head><title>Index of /sub</title></head><body><h1>Index of /sub</h1><ul>''
             @ ''<li><a href="%2FsubZ.md">Z.md</a></li>''
             @ ''<li><a href="%2Fsuba/">a/</a></li>''
             @ ''<li><a href="%2Fsubb.txt">b.txt</a></li>''
             @ ''</ul></body></html>''\<close>
    unfolding c [THEN conjunct2, THEN conjunct2, THEN conjunct2]
    by (simp add: t subInfos_def)
  have "RenderDirList exWorld fresh_response (exRequest ''/sub'' []) ''/srv/www/sub'' ''/sub''
      = Inr (fst (rw_Write (builtinTemplate exWorld
           \<lparr>td_Path = ''/sub'', td_Files = subInfos, td_Prefix = ''%2Fsub''\<rparr>) fresh_response))"
    using c [THEN conjunct1] by (simp add: t out)
  then show ?thesis
    using h1 by (simp add: out rw_Write_body fresh_response_def)
qed

end
